theory Spec2Isabelle
  imports Main
begin

section \<open>Python values, exceptions and the outside world\<close>

text \<open>
  The program is \<^verbatim>\<open>prometh/prometh_cli.py\<close>. Values whose Python type is not fixed by the
  program (the parsed JSON of an HTTP response, the value read from the environment, the
  content of a chat message) are values of \<open>pyval\<close>. A \<open>PyDict\<close> is an association list in
  insertion order; the first binding of a key is its value. A \<open>PyFloat m e\<close> stands for the
  double \<open>m * 2 ^ e\<close>; the program never computes with one. A \<open>string\<close> is a list of
  characters; no property below depends on what one character is.
\<close>

datatype pyval =
    PyNone
  | PyBool bool
  | PyInt int
  | PyFloat int int
  | PyStr string
  | PyList "pyval list"
  | PyDict "(string \<times> pyval) list"

text \<open>
  Every \<^verbatim>\<open>raise\<close> and \<^verbatim>\<open>exit\<close> of the program is a value of \<open>error\<close>; the
  string is the message (\<^verbatim>\<open>str(e)\<close>). \<open>ExternalError\<close> is a failure raised inside a
  library call (the HTTP client, the OpenAI client, the git subprocess, the console);
  \<open>EOFError\<close> is the end of the interactive input.
\<close>

datatype error =
    KeyError string
  | IndexError string
  | TypeError string
  | ValueError string
  | NotImplementedError string
  | Exception string
  | EOFError
  | SystemExit int
  | ExternalError string

record message =
  role :: string
  content :: pyval

record usage_metrics =
  completion_tokens :: int
  prompt_tokens :: int
  total_tokens :: int

text \<open>
  What \<^verbatim>\<open>client.chat.completions.create\<close> returns: the message content of each choice
  (\<^verbatim>\<open>Optional[str]\<close>, line 142) and the attribute \<^verbatim>\<open>usage\<close>, which the client library
  declares optional: \<open>None\<close> is Python's \<^verbatim>\<open>None\<close>.
\<close>

record chat_completion =
  choices :: "string option list"
  usage :: "usage_metrics option"

text \<open>
  The dictionary posted to a self-hosted model (line 158). The temperature is the decimal
  literal of the source, mantissa and exponent of ten: \<open>(7, -1)\<close> is \<^verbatim>\<open>0.7\<close>.
\<close>

record chat_request =
  req_model :: string
  req_messages :: "message list"
  req_temperature :: "int \<times> int"

text \<open>
  What the program does to the outside world, in order. A request, a subprocess or a print
  on the rich console is recorded when the library function is called, also when the call
  then raises. The builtin \<^verbatim>\<open>print\<close> is taken to return.
\<close>

datatype event =
    Print string
  | ConsolePrint string
  | ConsoleTable string "(string \<times> string) list"
  | ConsoleMarkdown string
  | ConsoleInput string
  | HttpGet string "(string \<times> string) list"
  | HttpPost string "(string \<times> string) list" chat_request
  | OpenAIChat string string "message list"
  | Subprocess "string list"

text \<open>
  The outside world: the process environment and one oracle for each library call that
  leaves the process. An oracle returns the call's result or the message of the exception
  the library raised. \<open>requests_get\<close> and \<open>requests_post\<close> stand for the request followed
  by \<^verbatim>\<open>.json()\<close> on the response; they fail also when the library refuses the URL before
  anything is sent. \<open>console\<close> is \<^verbatim>\<open>console.print\<close> of the rich console: \<open>None\<close> when
  the print returns, the message of the exception otherwise (the console reads a text as
  markup and raises on a closing tag that was never opened). \<open>str_builtin\<close> is Python's
  \<^verbatim>\<open>str()\<close> on the values the program does not format itself (floats, lists,
  dictionaries).
\<close>

record world =
  environ :: "string \<rightharpoonup> string"
  requests_get :: "string \<Rightarrow> (string \<times> string) list \<Rightarrow> string + pyval"
  requests_post :: "string \<Rightarrow> (string \<times> string) list \<Rightarrow> chat_request \<Rightarrow> string + pyval"
  openai_create :: "string \<Rightarrow> string \<Rightarrow> message list \<Rightarrow> string + chat_completion"
  check_output :: "string list \<Rightarrow> string + string"
  console :: "event \<Rightarrow> string option"
  str_builtin :: "pyval \<Rightarrow> string"

subsection \<open>Formatting and subscripting\<close>

fun digits :: "nat \<Rightarrow> string" where
  "digits n = (if n < 10 then [''0123456789'' ! n]
               else digits (n div 10) @ [''0123456789'' ! (n mod 10)])"

declare digits.simps [simp del]

definition str_of_int :: "int \<Rightarrow> string" where
  "str_of_int i = (if i < 0 then ''-'' @ digits (nat (- i)) else digits (nat i))"

text \<open>\<^verbatim>\<open>repr\<close> of a string without quotes or backslashes, as in the message of a KeyError.\<close>

definition repr_str :: "string \<Rightarrow> string" where
  "repr_str s = [CHR 0x27] @ s @ [CHR 0x27]"

text \<open>The text an f-string puts in place of \<^verbatim>\<open>{v}\<close>.\<close>

fun fstr :: "world \<Rightarrow> pyval \<Rightarrow> string" where
  "fstr w (PyStr s) = s"
| "fstr w PyNone = ''None''"
| "fstr w (PyBool b) = (if b then ''True'' else ''False'')"
| "fstr w (PyInt i) = str_of_int i"
| "fstr w v = str_builtin w v"

definition fstr_opt :: "string option \<Rightarrow> string" where
  "fstr_opt u = (case u of None \<Rightarrow> ''None'' | Some s \<Rightarrow> s)"

text \<open>The TypeError of subscripting a value of a type that has no items.\<close>

definition not_subscriptable :: "string \<Rightarrow> error" where
  "not_subscriptable t = TypeError (repr_str t @ '' object is not subscriptable'')"

text \<open>\<^verbatim>\<open>v[k]\<close> for a string key \<open>k\<close>.\<close>

fun getitem_str :: "pyval \<Rightarrow> string \<Rightarrow> error + pyval" where
  "getitem_str (PyDict kvs) k =
     (case map_of kvs k of None \<Rightarrow> Inl (KeyError (repr_str k)) | Some v \<Rightarrow> Inr v)"
| "getitem_str (PyList xs) k = Inl (TypeError ''list indices must be integers or slices, not str'')"
| "getitem_str (PyStr s) k =
     Inl (TypeError (''string indices must be integers, not '' @ repr_str ''str''))"
| "getitem_str PyNone k = Inl (not_subscriptable ''NoneType'')"
| "getitem_str (PyBool b) k = Inl (not_subscriptable ''bool'')"
| "getitem_str (PyInt i) k = Inl (not_subscriptable ''int'')"
| "getitem_str (PyFloat m e) k = Inl (not_subscriptable ''float'')"

text \<open>\<^verbatim>\<open>v[0]\<close>.\<close>

fun getitem_0 :: "pyval \<Rightarrow> error + pyval" where
  "getitem_0 (PyList []) = Inl (IndexError ''list index out of range'')"
| "getitem_0 (PyList (x # xs)) = Inr x"
| "getitem_0 (PyStr []) = Inl (IndexError ''string index out of range'')"
| "getitem_0 (PyStr (c # s)) = Inr (PyStr [c])"
| "getitem_0 (PyDict kvs) = Inl (KeyError ''0'')"
| "getitem_0 PyNone = Inl (not_subscriptable ''NoneType'')"
| "getitem_0 (PyBool b) = Inl (not_subscriptable ''bool'')"
| "getitem_0 (PyInt i) = Inl (not_subscriptable ''int'')"
| "getitem_0 (PyFloat m e) = Inl (not_subscriptable ''float'')"

text \<open>\<^verbatim>\<open>str(e)\<close> of an exception, as line 265 prints it.\<close>

fun str_of_error :: "error \<Rightarrow> string" where
  "str_of_error (KeyError m) = m"
| "str_of_error (IndexError m) = m"
| "str_of_error (TypeError m) = m"
| "str_of_error (ValueError m) = m"
| "str_of_error (NotImplementedError m) = m"
| "str_of_error (Exception m) = m"
| "str_of_error EOFError = []"
| "str_of_error (SystemExit n) = str_of_int n"
| "str_of_error (ExternalError m) = m"

subsection \<open>Sequencing\<close>

text \<open>
  A statement either raises or gives a value; a statement that also acts on the world
  gives the events first. \<open>bindE\<close> and \<open>bindW\<close> run the next statement when the first
  did not raise, and keep the events of both.
\<close>

definition bindE :: "error + 'a \<Rightarrow> ('a \<Rightarrow> error + 'b) \<Rightarrow> error + 'b" where
  "bindE r f = (case r of Inl e \<Rightarrow> Inl e | Inr a \<Rightarrow> f a)"

definition bindW :: "event list \<times> (error + 'a) \<Rightarrow> ('a \<Rightarrow> event list \<times> (error + 'b))
    \<Rightarrow> event list \<times> (error + 'b)" where
  "bindW r f = (case snd r of
                  Inl e \<Rightarrow> (fst r, Inl e)
                | Inr a \<Rightarrow> (fst r @ fst (f a), snd (f a)))"

definition emit :: "event list \<Rightarrow> event list \<times> (error + unit)" where
  "emit evs = (evs, Inr ())"

text \<open>\<^verbatim>\<open>console.print(...)\<close>, and several of them one after the other.\<close>

definition console_print :: "world \<Rightarrow> event \<Rightarrow> event list \<times> (error + unit)" where
  "console_print w ev =
     ([ev], case console w ev of None \<Rightarrow> Inr () | Some m \<Rightarrow> Inl (ExternalError m))"

fun console_prints :: "world \<Rightarrow> event list \<Rightarrow> event list \<times> (error + unit)" where
  "console_prints w [] = ([], Inr ())"
| "console_prints w (ev # evs) = bindW (console_print w ev) (\<lambda>u. console_prints w evs)"

section \<open>The pull-request provider (lines 88 to 138)\<close>

text \<open>
  \<^verbatim>\<open>os.environ[k]\<close>: the value as a Python object, or KeyError. The value is kept as a
  \<open>pyval\<close> so that the test \<^verbatim>\<open>is None\<close> of line 92 is a branch of the model.
\<close>

definition environ_getitem :: "world \<Rightarrow> string \<Rightarrow> error + pyval" where
  "environ_getitem w k =
     (case environ w k of None \<Rightarrow> Inl (KeyError (repr_str k)) | Some v \<Rightarrow> Inr (PyStr v))"

record StashAPI =
  stash_token :: pyval
  base_url :: string
  project_key :: string
  repo_slug :: string
  pr_id :: int
  headers :: "(string \<times> string) list"

definition StashAPI_init :: "world \<Rightarrow> string \<Rightarrow> string \<Rightarrow> string \<Rightarrow> int \<Rightarrow> error + StashAPI" where
  "StashAPI_init w burl pkey slug pid =
     bindE (environ_getitem w ''STASH_HTTP_ACCESS_TOKEN'') (\<lambda>tok.
       if tok = PyNone then Inl (ValueError ''STASH_HTTP_ACCESS_TOKEN is not set'')
       else Inr \<lparr> stash_token = tok, base_url = burl, project_key = pkey,
                  repo_slug = slug, pr_id = pid,
                  headers = [(''Authorization'', ''Bearer '' @ fstr w tok),
                             (''Accept'', ''application/json'')] \<rparr>)"

definition url_info :: "StashAPI \<Rightarrow> string" where
  "url_info api = ''http://'' @ base_url api @ ''/rest/api/latest/projects/'' @ project_key api
     @ ''/repos/'' @ repo_slug api @ ''/pull-requests/'' @ str_of_int (pr_id api)"

definition url_diff :: "StashAPI \<Rightarrow> string" where
  "url_diff api = ''http://'' @ base_url api @ ''/rest/api/latest/projects/'' @ project_key api
     @ ''/repos/'' @ repo_slug api @ ''/pull-requests/'' @ str_of_int (pr_id api) @ ''/diff''"

text \<open>\<^verbatim>\<open>requests.get(url, headers=...)\<close> followed by \<^verbatim>\<open>.json()\<close>.\<close>

definition http_get_json :: "world \<Rightarrow> string \<Rightarrow> (string \<times> string) list
    \<Rightarrow> event list \<times> (error + pyval)" where
  "http_get_json w url hs =
     ([HttpGet url hs],
      case requests_get w url hs of Inl m \<Rightarrow> Inl (ExternalError m) | Inr v \<Rightarrow> Inr v)"

definition get_repo_info_from_stash :: "world \<Rightarrow> StashAPI \<Rightarrow> event list \<times> (error + pyval)" where
  "get_repo_info_from_stash w api = http_get_json w (url_info api) (headers api)"

definition get_repo_diff_data_from_stash :: "world \<Rightarrow> StashAPI \<Rightarrow> event list \<times> (error + pyval)" where
  "get_repo_diff_data_from_stash w api = http_get_json w (url_diff api) (headers api)"

record pr_data =
  to_commit :: pyval
  from_commit :: pyval
  pr_title :: pyval
  pr_description :: pyval
  pr_link :: pyval

text \<open>
  Lines 125 to 128: the description is optional. Only KeyError is caught; any other
  exception of the lookup leaves the function.
\<close>

definition lookup_description :: "pyval \<Rightarrow> error + pyval" where
  "lookup_description pr_info_data =
     (case getitem_str pr_info_data ''description'' of
        Inl (KeyError m) \<Rightarrow> Inr (PyStr [])
      | Inl e \<Rightarrow> Inl e
      | Inr d \<Rightarrow> Inr d)"

text \<open>Lines 118 to 138, on the two parsed responses.\<close>

definition get_data_from :: "pyval \<Rightarrow> pyval \<Rightarrow> error + pr_data" where
  "get_data_from pr_info_data pr_diff_data =
     bindE (getitem_str pr_diff_data ''toHash'') (\<lambda>to_c.
     bindE (getitem_str pr_diff_data ''fromHash'') (\<lambda>from_c.
     bindE (getitem_str pr_info_data ''title'') (\<lambda>title.
     bindE (lookup_description pr_info_data) (\<lambda>descr.
     bindE (getitem_str pr_info_data ''links'') (\<lambda>links.
     bindE (getitem_str links ''self'') (\<lambda>self.
     bindE (getitem_0 self) (\<lambda>self0.
     bindE (getitem_str self0 ''href'') (\<lambda>href.
       Inr \<lparr> to_commit = to_c, from_commit = from_c, pr_title = title,
             pr_description = descr, pr_link = href \<rparr>))))))))"

text \<open>\<open>get_data\<close>: the metadata request, then the diff request, then the lookups.\<close>

definition get_data :: "world \<Rightarrow> StashAPI \<Rightarrow> event list \<times> (error + pr_data)" where
  "get_data w api =
     bindW (get_repo_info_from_stash w api) (\<lambda>pr_info_data.
     bindW (get_repo_diff_data_from_stash w api) (\<lambda>pr_diff_data.
       ([], get_data_from pr_info_data pr_diff_data)))"

section \<open>The LLM backends (lines 14 to 19 and 141 to 163)\<close>

definition OPENAI_GPT_TYPES :: "string set" where
  "OPENAI_GPT_TYPES =
     {''gpt-3.5-turbo'', ''gpt-3.5-turbo-16k'', ''gpt-3.5-turbo-0301'', ''gpt-4''}"

definition pyval_of_opt :: "string option \<Rightarrow> pyval" where
  "pyval_of_opt s = (case s of None \<Rightarrow> PyNone | Some t \<Rightarrow> PyStr t)"

text \<open>
  The result is the pair \<open>(response, usage_metrics)\<close>; \<open>None\<close> is Python's \<^verbatim>\<open>None\<close>.
  The event of a branch is the call of the client library (\<^verbatim>\<open>create\<close> or
  \<^verbatim>\<open>requests.post\<close>); the call may raise before anything is sent.
\<close>

definition generate_llm_response :: "world \<Rightarrow> string \<Rightarrow> message list \<Rightarrow> string option
    \<Rightarrow> event list \<times> (error + pyval \<times> usage_metrics option)" where
  "generate_llm_response w gpt_type messages llm_url =
     (if gpt_type \<in> OPENAI_GPT_TYPES then
        (case environ w ''OPENAI_API_KEY'' of
           None \<Rightarrow> ([], Inl (ValueError ''OPENAI_API_KEY is not set''))
         | Some key \<Rightarrow>
             ([OpenAIChat key gpt_type messages],
              case openai_create w key gpt_type messages of
                Inl m \<Rightarrow> Inl (ExternalError m)
              | Inr chat_completion \<Rightarrow>
                  (case choices chat_completion of
                     [] \<Rightarrow> Inl (IndexError ''list index out of range'')
                   | c # cs \<Rightarrow> Inr (pyval_of_opt c, usage chat_completion))))
      else
        (let url = fstr_opt llm_url @ ''/v1/chat/completions'';
             hs = [(''Content-Type'', ''application/json'')];
             data = \<lparr> req_model = gpt_type, req_messages = messages,
                      req_temperature = (7, -1) \<rparr>
         in ([HttpPost url hs data],
             case requests_post w url hs data of
               Inl m \<Rightarrow> Inl (ExternalError m)
             | Inr resp \<Rightarrow>
                 bindE (getitem_str resp ''choices'') (\<lambda>cs.
                 bindE (getitem_0 cs) (\<lambda>c0.
                 bindE (getitem_str c0 ''message'') (\<lambda>m.
                 bindE (getitem_str m ''content'') (\<lambda>c. Inr (c, None))))))))"

section \<open>The prompt and the first review (lines 166 to 234)\<close>

definition prompt :: string where
  "prompt =
     ''As a tech reviewer, please provide an in-depth review of the\<newline>'' @
     ''following pull request git diff data. Your task is to carefully analyze the title, body, and\<newline>'' @
     ''changes made in the pull request and identify any problems that need addressing including \<newline>'' @
     ''security issues. Please provide clear descriptions of each problem and offer constructive \<newline>'' @
     ''suggestions for how to address them. Additionally, please consider ways to optimize the \<newline>'' @
     ''changes made in the pull request. You should focus on providing feedback that will help\<newline>'' @
     ''improve the quality of the codebase while also remaining concise and clear in your\<newline>'' @
     ''explanations. Please note that unnecessary explanations or summaries should be avoided\<newline>'' @
     ''as they may delay the review process. Your feedback should be provided in a timely\<newline>'' @
     ''manner, using language that is easy to understand and follow.\<newline>'' @
     ''\<newline>'' @
     ''You are provided with the code changes (diffs) in a unidiff format.\<newline>'' @
     ''\<newline>'' @
     ''Your output should be a short summary of the changes and then a more detailed in a table format with the following columns:\<newline>'' @
     ''- Problem category: Bug, Security, Optimization, etc.\<newline>'' @
     ''- File name\<newline>'' @
     ''- Line number(s)\<newline>'' @
     ''- Description of the problem - where code can be included\<newline>'' @
     ''- Suggestion for improvement - where code can be included\<newline>'' @
     ''- Example code/solution\<newline>''"

definition pr_description_message :: "world \<Rightarrow> pyval \<Rightarrow> pyval \<Rightarrow> string" where
  "pr_description_message w title descr =
     ''A description was given to help you assist in understand why these changes were made.\<newline>'' @
     ''    The description was provided in a markdown format.\<newline>'' @
     ''\<newline>'' @
     ''    Title: '' @ fstr w title @ ''\<newline>'' @
     ''    Description: '' @ fstr w descr @ ''\<newline>'' @
     ''    ''"

definition diff_message :: "string \<Rightarrow> string" where
  "diff_message diff_output =
     ''Diff in unidiff format:\<newline>'' @
     ''\<newline>'' @
     ''    '' @ diff_output @ ''\<newline>'' @
     ''    ''"

definition final_message :: string where
  "final_message =
     ''All code changes have been provided.\<newline>'' @
     ''    Please provide me with your concise code review based on all the changes, context & title provided\<newline>'' @
     ''    ''"

text \<open>The list \<open>messages\<close> of lines 212 to 224.\<close>

definition seed_messages :: "world \<Rightarrow> pyval \<Rightarrow> pyval \<Rightarrow> string \<Rightarrow> message list" where
  "seed_messages w title descr diff_output =
     [\<lparr> role = ''system'', content = PyStr prompt \<rparr>,
      \<lparr> role = ''user'', content = PyStr (pr_description_message w title descr) \<rparr>,
      \<lparr> role = ''user'', content = PyStr (diff_message diff_output) \<rparr>,
      \<lparr> role = ''user'', content = PyStr final_message \<rparr>]"

text \<open>\<^verbatim>\<open>sep.join(xs)\<close>.\<close>

fun join :: "string \<Rightarrow> string list \<Rightarrow> string" where
  "join sep [] = []"
| "join sep [x] = x"
| "join sep (x # y # ys) = x @ sep @ join sep (y # ys)"

text \<open>
  The result is the triple \<open>(response, usage_metrics, messages)\<close>, where \<open>messages\<close> is
  the seed list with the assistant's message appended (line 232).
\<close>

definition analyze_pr_with_GPT :: "world \<Rightarrow> pyval \<Rightarrow> pyval \<Rightarrow> string \<Rightarrow> string \<Rightarrow> bool
    \<Rightarrow> string option
    \<Rightarrow> event list \<times> (error + pyval \<times> usage_metrics option \<times> message list)" where
  "analyze_pr_with_GPT w title descr diff_output gpt_type print_prompt llm_url =
     (let messages = seed_messages w title descr diff_output in
      bindW (emit (if print_prompt
                   then [Print (join ''\<newline>'' (map (\<lambda>m. fstr w (content m)) messages))]
                   else [])) (\<lambda>u.
      bindW (generate_llm_response w gpt_type messages llm_url) (\<lambda>r.
        ([], Inr (fst r, snd r,
                  messages @ [\<lparr> role = ''assistant'', content = fst r \<rparr>])))))"

section \<open>The command line run (lines 248 to 340)\<close>

text \<open>
  The parsed arguments, with the types \<^verbatim>\<open>get_args\<close> declares. Parsing itself and the
  table of arguments (lines 238 to 246) are not modelled.
\<close>

record args =
  args_base_url :: string
  args_project_key :: string
  args_llm_type :: string
  args_llm_url :: "string option"
  args_nb_context_lines :: int
  args_repo :: string
  args_pull_request_id :: int
  args_show_diff_only :: bool
  args_interactive :: bool
  args_exhaustive_analysis :: bool
  args_show_prompt :: bool
  args_exclude_file_types :: "string list"
  args_service :: string

text \<open>Lines 249 to 256.\<close>

definition make_api :: "world \<Rightarrow> args \<Rightarrow> event list \<times> (error + StashAPI)" where
  "make_api w a =
     (if args_service a \<in> {''stash'', ''bitbucket''} then
        ([], StashAPI_init w (args_base_url a) (args_project_key a) (args_repo a)
               (args_pull_request_id a))
      else if args_service a = ''github'' then
        ([], Inl (NotImplementedError ''GitHub is not implemented yet''))
      else
        ([Print ''Manual mode...''],
         Inl (NotImplementedError ''Manual mode is not implemented yet'')))"

text \<open>Lines 257 to 267: any exception of \<open>get_data\<close> is printed and the process exits with 1.\<close>

definition fetch_data :: "world \<Rightarrow> StashAPI \<Rightarrow> event list \<times> (error + pr_data)" where
  "fetch_data w api =
     (case snd (get_data w api) of
        Inl e \<Rightarrow>
          (fst (get_data w api) @
             [Print (''Error: '' @ str_of_error e),
              Print ''Problems... but I am not going to handle it. Happy debugging sucker''],
           Inl (SystemExit 1))
      | Inr d \<Rightarrow> (fst (get_data w api), Inr d))"

text \<open>Lines 269 to 274.\<close>

definition info_table :: "world \<Rightarrow> pr_data \<Rightarrow> event" where
  "info_table w d =
     ConsoleTable ''Info''
       [(''to_commit'', fstr w (to_commit d)),
        (''from_commit'', fstr w (from_commit d)),
        (''pr_title'', fstr w (pr_title d)),
        (''pr_description'', fstr w (pr_description d)),
        (''pr_link'', fstr w (pr_link d))]"

text \<open>Line 276: the command of the name-status call.\<close>

definition name_status_cmd :: "pyval \<Rightarrow> pyval \<Rightarrow> pyval list" where
  "name_status_cmd from_c to_c =
     [PyStr ''git'', PyStr ''diff'', PyStr ''--name-status'', from_c, to_c]"

text \<open>Lines 279 to 282.\<close>

definition diff_filter :: "args \<Rightarrow> string" where
  "diff_filter a = (if args_exhaustive_analysis a then ''M'' @ ''A'' else ''M'')"

text \<open>Lines 284 to 289: the command of the unified-diff call.\<close>

definition diff_cmd :: "args \<Rightarrow> pyval \<Rightarrow> pyval \<Rightarrow> pyval list" where
  "diff_cmd a from_c to_c =
     [PyStr ''git'', PyStr ''diff'', PyStr (''--diff-filter='' @ diff_filter a),
      PyStr (''-U'' @ str_of_int (args_nb_context_lines a)), from_c, to_c]
     @ (if length (args_exclude_file_types a) > 0
        then [PyStr ''--'', PyStr ''.'']
             @ map (\<lambda>t. PyStr ('':(exclude)*'' @ t)) (args_exclude_file_types a)
        else [])"

text \<open>The same command as strings, for revisions that are strings.\<close>

definition diff_cmd_line :: "args \<Rightarrow> string \<Rightarrow> string \<Rightarrow> string list" where
  "diff_cmd_line a f t =
     [''git'', ''diff'', ''--diff-filter='' @ diff_filter a,
      ''-U'' @ str_of_int (args_nb_context_lines a), f, t]
     @ (if args_exclude_file_types a \<noteq> []
        then [''--'', ''.''] @ map (\<lambda>x. '':(exclude)*'' @ x) (args_exclude_file_types a)
        else [])"

fun type_name :: "pyval \<Rightarrow> string" where
  "type_name PyNone = ''NoneType''"
| "type_name (PyBool b) = ''bool''"
| "type_name (PyInt i) = ''int''"
| "type_name (PyFloat m e) = ''float''"
| "type_name (PyStr s) = ''str''"
| "type_name (PyList xs) = ''list''"
| "type_name (PyDict kvs) = ''dict''"

text \<open>
  The arguments of a command as strings; the first one that is not a string is the
  TypeError the subprocess module raises before anything is run.
\<close>

fun cmd_strings :: "pyval list \<Rightarrow> error + string list" where
  "cmd_strings [] = Inr []"
| "cmd_strings (PyStr s # vs) = bindE (cmd_strings vs) (\<lambda>ss. Inr (s # ss))"
| "cmd_strings (v # vs) =
     Inl (TypeError (''expected str, bytes or os.PathLike object, not '' @ type_name v))"

text \<open>\<^verbatim>\<open>subprocess.check_output(cmd, encoding="utf-8")\<close>.\<close>

definition subprocess_check_output :: "world \<Rightarrow> pyval list \<Rightarrow> event list \<times> (error + string)" where
  "subprocess_check_output w cmd =
     (case cmd_strings cmd of
        Inl e \<Rightarrow> ([], Inl e)
      | Inr ss \<Rightarrow>
          ([Subprocess ss],
           case check_output w ss of Inl m \<Rightarrow> Inl (ExternalError m) | Inr out \<Rightarrow> Inr out))"

text \<open>
  Binding one parameter of a call: Python binds the arguments of a call before the body
  runs, and a parameter that has no default and gets no argument is a TypeError. The first
  argument is the name of the called function.
\<close>

datatype 'a param = Required string | Default string 'a

fun bind_param :: "string \<Rightarrow> 'a param \<Rightarrow> 'a option \<Rightarrow> error + 'a" where
  "bind_param f p (Some v) = Inr v"
| "bind_param f (Default n d) None = Inr d"
| "bind_param f (Required n) None =
     Inl (TypeError (f @ ''() missing 1 required positional argument: '' @ repr_str n))"

text \<open>Line 141: \<^verbatim>\<open>llm_url: str\<close>, the third parameter, has no default.\<close>

definition llm_url_param :: "string option param" where
  "llm_url_param = Required ''llm_url''"

text \<open>
  Line 338: \<^verbatim>\<open>generate_llm_response(args.llm_type, messages)\<close>, a call with two
  positional arguments.
\<close>

definition generate_llm_response_call2 :: "world \<Rightarrow> string \<Rightarrow> message list
    \<Rightarrow> event list \<times> (error + pyval \<times> usage_metrics option)" where
  "generate_llm_response_call2 w gpt_type messages =
     (case bind_param ''generate_llm_response'' llm_url_param None of
        Inl e \<Rightarrow> ([], Inl e)
      | Inr llm_url \<Rightarrow> generate_llm_response w gpt_type messages llm_url)"

definition input_prompt :: string where
  "input_prompt = ''[magenta][bold]You:[/bold][/magenta] ''"

text \<open>
  Lines 332 to 340, on the lines the user will type. The loop has no normal exit: it ends
  with \<open>SystemExit 0\<close> on the input \<^verbatim>\<open>exit\<close>, with \<open>EOFError\<close> when the input ends, or
  with the exception of a turn (of the call of line 338 or of the print of line 340). The result holds the events, the exception and the list
  \<open>messages\<close> as the loop left it.
\<close>

fun interactive_loop :: "world \<Rightarrow> string \<Rightarrow> message list \<Rightarrow> string list
    \<Rightarrow> event list \<times> error \<times> message list" where
  "interactive_loop w llm_type messages [] = ([ConsoleInput input_prompt], EOFError, messages)"
| "interactive_loop w llm_type messages (user_input # rest) =
     (if user_input = ''exit'' then ([ConsoleInput input_prompt], SystemExit 0, messages)
      else
        (let messages1 = messages @ [\<lparr> role = ''user'', content = PyStr user_input \<rparr>];
             r = generate_llm_response_call2 w llm_type messages1
         in case snd r of
              Inl e \<Rightarrow> ([ConsoleInput input_prompt, Print ''\<newline>''] @ fst r, e, messages1)
            | Inr res \<Rightarrow>
                (let messages2 = messages1 @ [\<lparr> role = ''assistant'', content = fst res \<rparr>];
                     p = console_print w (ConsolePrint (''[cyan][bold]AI:[/bold] ''
                                                         @ fstr w (fst res) @ ''\<newline>[cyan]''))
                 in case snd p of
                      Inl e \<Rightarrow>
                        ([ConsoleInput input_prompt, Print ''\<newline>''] @ fst r @ fst p,
                         e, messages2)
                    | Inr u \<Rightarrow>
                        (let l = interactive_loop w llm_type messages2 rest
                         in ([ConsoleInput input_prompt, Print ''\<newline>''] @ fst r @ fst p
                               @ fst l,
                             snd l)))))"

text \<open>Lines 310 to 320.\<close>

definition usage_table :: "usage_metrics option \<Rightarrow> event list" where
  "usage_table usage_metrics =
     (case usage_metrics of
        None \<Rightarrow> []
      | Some u \<Rightarrow>
          [ConsoleTable ''OpenAPI Usage Metrics''
             [(''completion_tokens'', str_of_int (completion_tokens u)),
              (''prompt_tokens'', str_of_int (prompt_tokens u)),
              (''total_tokens'', str_of_int (total_tokens u))]])"

text \<open>
  Line 323: \<^verbatim>\<open>Markdown(analyzis_message)\<close> parses its argument, and the parser raises
  TypeError on anything that is not a string; line 324 prints the result.
\<close>

fun markdown_print :: "world \<Rightarrow> pyval \<Rightarrow> event list \<times> (error + unit)" where
  "markdown_print w (PyStr s) = console_print w (ConsoleMarkdown s)"
| "markdown_print w v =
     ([], Inl (TypeError (''Input data should be a string, not <class ''
                          @ repr_str (type_name v) @ ''>'')))"

definition analysis_header :: event where
  "analysis_header =
     ConsolePrint ''[magenta][bold]------ Analyzis: ------[/bold][/magenta]\<newline>''"

definition diff_only_header :: event where
  "diff_only_header = ConsolePrint ''[bold]Showing only the git diff output:[/bold]\<newline>''"

text \<open>Lines 328 to 330.\<close>

definition interactive_banner :: "event list" where
  "interactive_banner =
     [ConsolePrint ''[cyan][bold]------ Interactive chatting: ------[/bold][/cyan]\<newline>'',
      ConsolePrint ''You can chat with the AI about the PR'',
      ConsolePrint (''Press `CTRL+C` or type '' @ repr_str ''exit''
                    @ '' [red]to exit[/red] the interactive chatting\<newline>'')]"

text \<open>
  Lines 294 to 340: what \<open>main\<close> does once both outputs of git are there. \<open>inputs\<close> are
  the lines the user types in the interactive phase.
\<close>

definition review :: "world \<Rightarrow> args \<Rightarrow> pr_data \<Rightarrow> string \<Rightarrow> string \<Rightarrow> string list
    \<Rightarrow> event list \<times> (error + unit)" where
  "review w a d diff_name_status_output diff_modified_output inputs =
     bindW (emit (if length diff_modified_output = 0
                  then [Print ''No file modifications in the PR. But new and deleted files might be present.'']
                  else [])) (\<lambda>u.
     (let diff_output = diff_name_status_output @ ''\<newline>\<newline>'' @ diff_modified_output in
      if args_show_diff_only a then
        bindW (console_print w diff_only_header) (\<lambda>u.
        bindW (console_print w (ConsolePrint diff_output)) (\<lambda>u.
          ([], Inl (SystemExit 0))))
      else if length diff_output = 0 then
        ([], Inl (Exception ''No diff output. Something is wrong, but I don't care.''))
      else
        bindW (analyze_pr_with_GPT w (pr_title d) (pr_description d) diff_output
                 (args_llm_type a) (args_show_prompt a) (args_llm_url a)) (\<lambda>r.
        bindW (console_prints w (usage_table (fst (snd r)))) (\<lambda>u.
        bindW (console_print w analysis_header) (\<lambda>u.
        bindW (markdown_print w (fst r)) (\<lambda>u.
        bindW (emit [Print ''\<newline>'']) (\<lambda>u.
          if args_interactive a then
            bindW (console_prints w interactive_banner) (\<lambda>u.
              (let l = interactive_loop w (args_llm_type a) (snd (snd r)) inputs
               in (fst l, Inl (fst (snd l)))))
          else ([], Inr ()))))))))"

text \<open>Lines 248 to 340.\<close>

definition main :: "world \<Rightarrow> args \<Rightarrow> string list \<Rightarrow> event list \<times> (error + unit)" where
  "main w a inputs =
     bindW (make_api w a) (\<lambda>api.
     bindW (fetch_data w api) (\<lambda>d.
     bindW (console_print w (info_table w d)) (\<lambda>u.
     bindW (subprocess_check_output w (name_status_cmd (from_commit d) (to_commit d)))
       (\<lambda>diff_name_status_output.
     bindW (subprocess_check_output w (diff_cmd a (from_commit d) (to_commit d)))
       (\<lambda>diff_modified_output.
       review w a d diff_name_status_output diff_modified_output inputs)))))"

section \<open>The diff tool\<close>

text \<open>
  Modelled from the spec: the selection rule of the diff tool, which the program runs as a
  subprocess and which is not part of the repository (spec 4.2 and 8). A change is a pair
  of the letter of its kind and its path. The tool reports a change when the letter of its
  kind is among the letters of the option \<^verbatim>\<open>--diff-filter=\<close> of the command; a command
  without the option reports every change.
\<close>

definition filter_option :: "string list \<Rightarrow> string option" where
  "filter_option cmd =
     (case filter (\<lambda>s. take 14 s = ''--diff-filter='') cmd of
        [] \<Rightarrow> None
      | s # ss \<Rightarrow> Some (drop 14 s))"

definition reported :: "string list \<Rightarrow> (char \<times> string) list \<Rightarrow> (char \<times> string) list" where
  "reported cmd changes =
     (case filter_option cmd of
        None \<Rightarrow> changes
      | Some letters \<Rightarrow> filter (\<lambda>c. fst c \<in> set letters) changes)"

section \<open>Example inputs\<close>

text \<open>
  A world in which both backends answer, a pull request and its arguments; the theorems
  below are applied to them.
\<close>

definition example_usage :: usage_metrics where
  "example_usage = \<lparr> completion_tokens = 2, prompt_tokens = 900, total_tokens = 902 \<rparr>"

definition example_info :: pyval where
  "example_info =
     PyDict [(''title'', PyStr ''Fix parser''),
             (''links'', PyDict [(''self'', PyList [PyDict [(''href'', PyStr ''http://stash/pr/85'')]])])]"

definition example_diff :: pyval where
  "example_diff = PyDict [(''fromHash'', PyStr ''a1''), (''toHash'', PyStr ''b2'')]"

definition example_reply :: pyval where
  "example_reply =
     PyDict [(''choices'', PyList [PyDict [(''message'', PyDict [(''content'', PyStr ''fine'')])]])]"

definition example_world :: world where
  "example_world =
     \<lparr> environ = [''STASH_HTTP_ACCESS_TOKEN'' \<mapsto> ''tok'', ''OPENAI_API_KEY'' \<mapsto> ''sk''],
       requests_get =
         (\<lambda>url hs. if url = ''http://stash/rest/api/latest/projects/MSYS/repos/manager/pull-requests/85''
                    then Inr example_info else Inr example_diff),
       requests_post =
         (\<lambda>url hs data. if url = ''http://localhost:8000/v1/chat/completions''
                         then Inr example_reply
                         else Inl ''Invalid URL: No scheme supplied''),
       openai_create =
         (\<lambda>key model msgs. Inr \<lparr> choices = [Some ''LGTM''], usage = Some example_usage \<rparr>),
       check_output = (\<lambda>cmd. if ''--name-status'' \<in> set cmd
                              then Inr (''M'' @ [CHR 0x09] @ ''file.py'') else Inr []),
       console = (\<lambda>ev. None),
       str_builtin = (\<lambda>v. ''?'') \<rparr>"

definition example_args :: args where
  "example_args =
     \<lparr> args_base_url = ''stash'', args_project_key = ''MSYS'', args_llm_type = ''gpt-4'',
       args_llm_url = None, args_nb_context_lines = 10, args_repo = ''manager'',
       args_pull_request_id = 85, args_show_diff_only = False, args_interactive = True,
       args_exhaustive_analysis = False, args_show_prompt = False,
       args_exclude_file_types = [''md''], args_service = ''stash'' \<rparr>"

definition example_api :: StashAPI where
  "example_api =
     \<lparr> stash_token = PyStr ''tok'', base_url = ''stash'', project_key = ''MSYS'',
       repo_slug = ''manager'', pr_id = 85,
       headers = [(''Authorization'', ''Bearer tok''), (''Accept'', ''application/json'')] \<rparr>"

definition example_data :: pr_data where
  "example_data =
     \<lparr> to_commit = PyStr ''b2'', from_commit = PyStr ''a1'', pr_title = PyStr ''Fix parser'',
       pr_description = PyStr [], pr_link = PyStr ''http://stash/pr/85'' \<rparr>"

text \<open>
  The same world for a pull request whose only change is a modified \<^verbatim>\<open>README.md\<close>: the
  name-status call lists it, and the unified diff, which excludes the file, is empty.
\<close>

definition readme_world :: world where
  "readme_world =
     example_world \<lparr> check_output :=
       (\<lambda>cmd. if ''--name-status'' \<in> set cmd
              then Inr (''M'' @ [CHR 0x09] @ ''README.md'') else Inr []) \<rparr>"

text \<open>The same world with a hosted backend that reports no usage.\<close>

definition no_usage_world :: world where
  "no_usage_world =
     example_world \<lparr> openai_create :=
       (\<lambda>key model msgs. Inr \<lparr> choices = [Some ''LGTM''], usage = None \<rparr>) \<rparr>"

section \<open>Sequencing lemmas\<close>

lemma bindE_Inr_iff: "bindE r f = Inr b \<longleftrightarrow> (\<exists>a. r = Inr a \<and> f a = Inr b)"
  by (cases r) (simp_all add: bindE_def)

lemma bindE_Inl_iff: "bindE r f = Inl e \<longleftrightarrow> r = Inl e \<or> (\<exists>a. r = Inr a \<and> f a = Inl e)"
  by (cases r) (simp_all add: bindE_def)

lemma snd_bindW_Inl_iff:
  "snd (bindW r f) = Inl e \<longleftrightarrow> snd r = Inl e \<or> (\<exists>a. snd r = Inr a \<and> snd (f a) = Inl e)"
  by (cases "snd r") (simp_all add: bindW_def)

lemma snd_bindW_Inr_iff:
  "snd (bindW r f) = Inr b \<longleftrightarrow> (\<exists>a. snd r = Inr a \<and> snd (f a) = Inr b)"
  by (cases "snd r") (simp_all add: bindW_def)

lemma bindW_emit: "bindW (emit evs) f = (evs @ fst (f ()), snd (f ()))"
  by (simp add: bindW_def emit_def)

section \<open>The example world\<close>

lemma gpt4_hosted: "''gpt-4'' \<in> OPENAI_GPT_TYPES"
  by (simp add: OPENAI_GPT_TYPES_def)

lemma llama_not_hosted: "''llama-local'' \<notin> OPENAI_GPT_TYPES"
  by (simp add: OPENAI_GPT_TYPES_def)

lemma example_generate:
  "generate_llm_response example_world ''gpt-4'' msgs url =
     ([OpenAIChat ''sk'' ''gpt-4'' msgs], Inr (PyStr ''LGTM'', Some example_usage))"
  by (simp add: generate_llm_response_def gpt4_hosted example_world_def pyval_of_opt_def)

lemma example_analyze:
  "snd (analyze_pr_with_GPT example_world t d x ''gpt-4'' False url) =
     Inr (PyStr ''LGTM'', Some example_usage,
          seed_messages example_world t d x @ [\<lparr> role = ''assistant'', content = PyStr ''LGTM'' \<rparr>])"
  by (simp add: analyze_pr_with_GPT_def Let_def bindW_def emit_def example_generate)

section \<open>The seeded conversation\<close>

text \<open>
  C1. For every title, description and diff text the seed list has the four messages
  system, user (description), user (diff), user (final instruction), in this order; when
  the first LLM call returns, the list handed back is the seed list with one assistant
  message appended: five messages with the roles system, user, user, user, assistant.
\<close>

theorem analyze_pr_with_GPT_conversation:
  "map role (seed_messages w t d x) = [''system'', ''user'', ''user'', ''user'']
   \<and> map content (seed_messages w t d x) =
       [PyStr prompt, PyStr (pr_description_message w t d), PyStr (diff_message x),
        PyStr final_message]
   \<and> (\<forall>resp um msgs.
         snd (analyze_pr_with_GPT w t d x g pp url) = Inr (resp, um, msgs) \<longrightarrow>
           msgs = seed_messages w t d x @ [\<lparr> role = ''assistant'', content = resp \<rparr>]
         \<and> map role msgs = [''system'', ''user'', ''user'', ''user'', ''assistant'']
         \<and> length msgs = 5)"
proof (intro conjI allI impI)
  show "map role (seed_messages w t d x) = [''system'', ''user'', ''user'', ''user'']"
    by (simp add: seed_messages_def)
  show "map content (seed_messages w t d x) =
       [PyStr prompt, PyStr (pr_description_message w t d), PyStr (diff_message x),
        PyStr final_message]"
    by (simp add: seed_messages_def)
next
  fix resp um msgs
  assume "snd (analyze_pr_with_GPT w t d x g pp url) = Inr (resp, um, msgs)"
  then have m: "msgs = seed_messages w t d x @ [\<lparr> role = ''assistant'', content = resp \<rparr>]"
    by (auto simp add: analyze_pr_with_GPT_def Let_def bindW_emit snd_bindW_Inr_iff)
  show "msgs = seed_messages w t d x @ [\<lparr> role = ''assistant'', content = resp \<rparr>]"
    by (rule m)
  show "map role msgs = [''system'', ''user'', ''user'', ''user'', ''assistant'']"
    by (simp add: m seed_messages_def)
  show "length msgs = 5"
    by (simp add: m seed_messages_def)
qed

theorem analyze_pr_with_GPT_conversation_witness:
  "snd (analyze_pr_with_GPT example_world (PyStr ''Fix parser'') (PyStr []) ''diff'' ''gpt-4'' False None)
     = Inr (PyStr ''LGTM'', Some example_usage,
            seed_messages example_world (PyStr ''Fix parser'') (PyStr []) ''diff''
              @ [\<lparr> role = ''assistant'', content = PyStr ''LGTM'' \<rparr>])
   \<and> map role (seed_messages example_world (PyStr ''Fix parser'') (PyStr []) ''diff''
              @ [\<lparr> role = ''assistant'', content = PyStr ''LGTM'' \<rparr>])
     = [''system'', ''user'', ''user'', ''user'', ''assistant'']"
  using analyze_pr_with_GPT_conversation
          [of example_world "PyStr ''Fix parser''" "PyStr []" "''diff''" "''gpt-4''" False None]
    example_analyze [of "PyStr ''Fix parser''" "PyStr []" "''diff''" None]
  by simp

section \<open>The interactive turn\<close>

text \<open>
  C3. What the code does on an interactive turn whose input is not \<^verbatim>\<open>exit\<close>: the user
  message is appended, and the call of line 338 raises TypeError, because it passes two
  arguments to a function of three required parameters. No request is issued, no assistant
  message is appended and the loop ends with the exception; the messages stored before the
  turn are unchanged.
\<close>

theorem interactive_loop_turn_raises:
  "user_input \<noteq> ''exit'' \<Longrightarrow>
   interactive_loop w llm_type messages (user_input # rest) =
     ([ConsoleInput input_prompt, Print ''\<newline>''],
      TypeError (''generate_llm_response() missing 1 required positional argument: '' @ repr_str ''llm_url''),
      messages @ [\<lparr> role = ''user'', content = PyStr user_input \<rparr>])"
  by (simp add: generate_llm_response_call2_def llm_url_param_def Let_def)

theorem interactive_loop_turn_raises_witness:
  "''why?'' \<noteq> ''exit'' \<and>
   interactive_loop example_world ''gpt-4''
     (seed_messages example_world (PyStr ''Fix parser'') (PyStr []) ''diff''
        @ [\<lparr> role = ''assistant'', content = PyStr ''LGTM'' \<rparr>]) [''why?'', ''exit''] =
     ([ConsoleInput input_prompt, Print ''\<newline>''],
      TypeError (''generate_llm_response() missing 1 required positional argument: '' @ repr_str ''llm_url''),
      seed_messages example_world (PyStr ''Fix parser'') (PyStr []) ''diff''
        @ [\<lparr> role = ''assistant'', content = PyStr ''LGTM'' \<rparr>,
           \<lparr> role = ''user'', content = PyStr ''why?'' \<rparr>])"
  using interactive_loop_turn_raises [of "''why?''" example_world "''gpt-4''"
     "seed_messages example_world (PyStr ''Fix parser'') (PyStr []) ''diff''
        @ [\<lparr> role = ''assistant'', content = PyStr ''LGTM'' \<rparr>]" "[''exit'']"]
  by simp

section \<open>The access token\<close>

lemma StashAPI_init_cases:
  "StashAPI_init w b p r i =
     (case environ w ''STASH_HTTP_ACCESS_TOKEN'' of
        None \<Rightarrow> Inl (KeyError (repr_str ''STASH_HTTP_ACCESS_TOKEN''))
      | Some v \<Rightarrow> Inr \<lparr> stash_token = PyStr v, base_url = b, project_key = p, repo_slug = r,
                         pr_id = i,
                         headers = [(''Authorization'', ''Bearer '' @ v),
                                    (''Accept'', ''application/json'')] \<rparr>)"
  by (simp add: StashAPI_init_def environ_getitem_def bindE_def split: option.splits)

lemma example_init:
  "StashAPI_init example_world ''stash'' ''MSYS'' ''manager'' 85 =
     Inr \<lparr> stash_token = PyStr ''tok'', base_url = ''stash'', project_key = ''MSYS'',
           repo_slug = ''manager'', pr_id = 85,
           headers = [(''Authorization'', ''Bearer tok''), (''Accept'', ''application/json'')] \<rparr>"
  by (simp add: StashAPI_init_cases example_world_def)

text \<open>
  C9. When the variable \<^verbatim>\<open>STASH_HTTP_ACCESS_TOKEN\<close> is absent from the environment, the
  constructor raises the KeyError of the lookup, and \<open>main\<close> ends with it before any
  event, so before any HTTP call. The constructor never raises the ValueError of line 93;
  when it succeeds the stored token is the string of the environment, not \<^verbatim>\<open>None\<close>.
\<close>

theorem StashAPI_init_token:
  "(environ w ''STASH_HTTP_ACCESS_TOKEN'' = None \<longrightarrow>
      StashAPI_init w b p r i = Inl (KeyError (repr_str ''STASH_HTTP_ACCESS_TOKEN''))
      \<and> (args_service a \<in> {''stash'', ''bitbucket''} \<longrightarrow>
           main w a inputs = ([], Inl (KeyError (repr_str ''STASH_HTTP_ACCESS_TOKEN'')))))
   \<and> StashAPI_init w b p r i \<noteq> Inl (ValueError ''STASH_HTTP_ACCESS_TOKEN is not set'')
   \<and> (\<forall>api. StashAPI_init w b p r i = Inr api \<longrightarrow>
         stash_token api \<noteq> PyNone
         \<and> (\<exists>v. environ w ''STASH_HTTP_ACCESS_TOKEN'' = Some v \<and> stash_token api = PyStr v))"
  by (auto simp add: StashAPI_init_cases main_def make_api_def bindW_def split: option.splits)

theorem StashAPI_init_token_witness:
  "environ (example_world\<lparr> environ := Map.empty \<rparr>) ''STASH_HTTP_ACCESS_TOKEN'' = None
   \<and> args_service example_args \<in> {''stash'', ''bitbucket''}
   \<and> main (example_world\<lparr> environ := Map.empty \<rparr>) example_args [] =
        ([], Inl (KeyError (repr_str ''STASH_HTTP_ACCESS_TOKEN'')))
   \<and> StashAPI_init example_world ''stash'' ''MSYS'' ''manager'' 85 =
       Inr \<lparr> stash_token = PyStr ''tok'', base_url = ''stash'', project_key = ''MSYS'',
             repo_slug = ''manager'', pr_id = 85,
             headers = [(''Authorization'', ''Bearer tok''), (''Accept'', ''application/json'')] \<rparr>
   \<and> PyStr ''tok'' \<noteq> PyNone"
  using StashAPI_init_token [of "example_world\<lparr> environ := Map.empty \<rparr>" "''stash''" "''MSYS''" "''manager''" 85
               example_args "[]"]
    StashAPI_init_token [of example_world "''stash''" "''MSYS''" "''manager''" 85 example_args "[]"]
    example_init
  by (simp add: example_args_def)

section \<open>Which exceptions can leave each step\<close>

lemma getitem_str_not_Exception: "getitem_str v k \<noteq> Inl (Exception m)"
  by (cases v) (simp_all add: not_subscriptable_def split: option.splits)

lemma getitem_0_not_Exception: "getitem_0 v \<noteq> Inl (Exception m)"
  by (cases v rule: getitem_0.cases) (simp_all add: not_subscriptable_def)

lemma generate_llm_response_not_Exception:
  "snd (generate_llm_response w g msgs url) \<noteq> Inl (Exception m)"
  by (auto simp add: generate_llm_response_def Let_def bindE_Inl_iff
        getitem_str_not_Exception getitem_0_not_Exception
        split: option.splits sum.splits list.splits)

lemma generate_llm_response_call2_raises:
  "generate_llm_response_call2 w g msgs =
     ([], Inl (TypeError (''generate_llm_response() missing 1 required positional argument: ''
                          @ repr_str ''llm_url'')))"
  by (simp add: generate_llm_response_call2_def llm_url_param_def)

lemma interactive_loop_not_Exception:
  "fst (snd (interactive_loop w g msgs inputs)) \<noteq> Exception m"
  by (cases inputs) (simp_all add: generate_llm_response_call2_raises Let_def)

lemma analyze_pr_with_GPT_not_Exception:
  "snd (analyze_pr_with_GPT w t d x g pp url) \<noteq> Inl (Exception m)"
  by (simp add: analyze_pr_with_GPT_def Let_def bindW_emit snd_bindW_Inl_iff
        generate_llm_response_not_Exception)

lemma console_print_not_Exception: "snd (console_print w ev) \<noteq> Inl (Exception m)"
  by (simp add: console_print_def split: option.splits)

lemma console_prints_not_Exception: "snd (console_prints w evs) \<noteq> Inl (Exception m)"
  by (induction evs) (simp_all add: snd_bindW_Inl_iff console_print_not_Exception)

lemma markdown_print_not_Exception: "snd (markdown_print w v) \<noteq> Inl (Exception m)"
  by (cases v) (simp_all add: console_print_not_Exception)

lemma diff_output_length: "2 \<le> length (ns @ ''\<newline>\<newline>'' @ dm)"
  by simp

lemma review_not_Exception:
  "snd (review w a d ns dm inputs) \<noteq> Inl (Exception m)"
  by (simp add: review_def Let_def bindW_emit snd_bindW_Inl_iff
        analyze_pr_with_GPT_not_Exception interactive_loop_not_Exception
        console_print_not_Exception console_prints_not_Exception markdown_print_not_Exception
        emit_def)

lemma cmd_strings_not_Exception: "cmd_strings cmd \<noteq> Inl (Exception m)"
  by (induction cmd rule: cmd_strings.induct) (simp_all add: bindE_Inl_iff)

lemma subprocess_check_output_not_Exception:
  "snd (subprocess_check_output w cmd) \<noteq> Inl (Exception m)"
  using cmd_strings_not_Exception [of cmd m]
  by (auto simp add: subprocess_check_output_def split: sum.splits)

lemma make_api_not_Exception: "snd (make_api w a) \<noteq> Inl (Exception m)"
  by (simp add: make_api_def StashAPI_init_cases split: option.splits)

lemma fetch_data_not_Exception: "snd (fetch_data w api) \<noteq> Inl (Exception m)"
  by (simp add: fetch_data_def split: sum.splits)

section \<open>The guard on the combined diff text\<close>

text \<open>
  C10. The combined text is the name-status output, two newlines and the unified diff,
  so its length is at least 2 for all outputs, both empty included. The exception of
  line 305 is therefore never raised: neither the part of the run after the two git calls
  nor the whole run ends with it.
\<close>

theorem no_diff_output_unreachable:
  "2 \<le> length (diff_name_status_output @ ''\<newline>\<newline>'' @ diff_modified_output)
   \<and> snd (review w a d diff_name_status_output diff_modified_output inputs)
        \<noteq> Inl (Exception ''No diff output. Something is wrong, but I don't care.'')
   \<and> snd (main w a inputs)
        \<noteq> Inl (Exception ''No diff output. Something is wrong, but I don't care.'')"
  by (simp add: review_not_Exception main_def snd_bindW_Inl_iff make_api_not_Exception
        fetch_data_not_Exception subprocess_check_output_not_Exception
        console_print_not_Exception)

section \<open>Backend dispatch\<close>

lemma no_usage_generate:
  "generate_llm_response no_usage_world ''gpt-4'' msgs url =
     ([OpenAIChat ''sk'' ''gpt-4'' msgs], Inr (PyStr ''LGTM'', None))"
  by (simp add: generate_llm_response_def gpt4_hosted no_usage_world_def example_world_def
        pyval_of_opt_def)

lemma example_generate_local:
  "generate_llm_response example_world ''llama-local'' msgs (Some ''http://localhost:8000'') =
     ([HttpPost ''http://localhost:8000/v1/chat/completions''
         [(''Content-Type'', ''application/json'')]
         \<lparr> req_model = ''llama-local'', req_messages = msgs, req_temperature = (7, -1) \<rparr>],
      Inr (PyStr ''fine'', None))"
  by (simp add: generate_llm_response_def llama_not_hosted example_world_def Let_def
        fstr_opt_def example_reply_def bindE_def)

text \<open>
  C2, as stated: a model identifier of the hosted set returns usage metrics. The hosted
  branch returns the attribute \<^verbatim>\<open>usage\<close> of the completion as it is, and the attribute
  may be \<^verbatim>\<open>None\<close>: in a world whose hosted backend reports no usage, the result for
  \<^verbatim>\<open>gpt-4\<close> has no usage metrics.
\<close>

theorem generate_llm_response_usage_counterexample:
  "''gpt-4'' \<in> OPENAI_GPT_TYPES
   \<and> generate_llm_response no_usage_world ''gpt-4''
        [\<lparr> role = ''user'', content = PyStr ''hello'' \<rparr>] None =
       ([OpenAIChat ''sk'' ''gpt-4'' [\<lparr> role = ''user'', content = PyStr ''hello'' \<rparr>]],
        Inr (PyStr ''LGTM'', None))"
  by (simp add: gpt4_hosted no_usage_generate)

text \<open>
  C2, amended. The backend is chosen by exact membership of the model identifier in the
  set of the four hosted names. For an identifier in the set the only call ever made is
  the OpenAI chat call with this model and these messages, and a returned result carries
  the usage of the completion unchanged, metrics when the backend reports them and
  \<^verbatim>\<open>None\<close> when it does not; for every other identifier the call is the POST to the
  self-hosted URL and a returned result carries no usage metrics. \<^verbatim>\<open>llama-local\<close>, a
  hosted name in upper case, an extension of a hosted name and a prefix of one are all
  outside the set.
\<close>

theorem generate_llm_response_dispatch:
  "(gpt_type \<in> OPENAI_GPT_TYPES \<longleftrightarrow>
      gpt_type = ''gpt-3.5-turbo'' \<or> gpt_type = ''gpt-3.5-turbo-16k''
      \<or> gpt_type = ''gpt-3.5-turbo-0301'' \<or> gpt_type = ''gpt-4'')
   \<and> (gpt_type \<in> OPENAI_GPT_TYPES \<longrightarrow>
        (\<forall>ev \<in> set (fst (generate_llm_response w gpt_type messages llm_url)).
            \<exists>key. ev = OpenAIChat key gpt_type messages)
        \<and> (\<forall>resp um. snd (generate_llm_response w gpt_type messages llm_url) = Inr (resp, um) \<longrightarrow>
              (\<exists>key c. environ w ''OPENAI_API_KEY'' = Some key
                 \<and> openai_create w key gpt_type messages = Inr c
                 \<and> um = usage c
                 \<and> fst (generate_llm_response w gpt_type messages llm_url)
                          = [OpenAIChat key gpt_type messages]))
        \<and> (\<forall>key c ch chs. environ w ''OPENAI_API_KEY'' = Some key
              \<and> openai_create w key gpt_type messages = Inr c \<and> choices c = ch # chs \<longrightarrow>
              generate_llm_response w gpt_type messages llm_url =
                ([OpenAIChat key gpt_type messages], Inr (pyval_of_opt ch, usage c))))
   \<and> (gpt_type \<notin> OPENAI_GPT_TYPES \<longrightarrow>
        fst (generate_llm_response w gpt_type messages llm_url) =
          [HttpPost (fstr_opt llm_url @ ''/v1/chat/completions'')
             [(''Content-Type'', ''application/json'')]
             \<lparr> req_model = gpt_type, req_messages = messages, req_temperature = (7, -1) \<rparr>]
        \<and> (\<forall>resp um. snd (generate_llm_response w gpt_type messages llm_url) = Inr (resp, um) \<longrightarrow>
              um = None))
   \<and> ''llama-local'' \<notin> OPENAI_GPT_TYPES \<and> ''GPT-4'' \<notin> OPENAI_GPT_TYPES
   \<and> ''gpt-4-32k'' \<notin> OPENAI_GPT_TYPES \<and> ''gpt'' \<notin> OPENAI_GPT_TYPES"
proof (intro conjI impI)
  show "gpt_type \<in> OPENAI_GPT_TYPES \<longleftrightarrow>
      gpt_type = ''gpt-3.5-turbo'' \<or> gpt_type = ''gpt-3.5-turbo-16k''
      \<or> gpt_type = ''gpt-3.5-turbo-0301'' \<or> gpt_type = ''gpt-4''"
    by (simp add: OPENAI_GPT_TYPES_def)
next
  assume h: "gpt_type \<in> OPENAI_GPT_TYPES"
  show "\<forall>ev \<in> set (fst (generate_llm_response w gpt_type messages llm_url)).
            \<exists>key. ev = OpenAIChat key gpt_type messages"
    using h by (simp add: generate_llm_response_def split: option.splits)
  show "\<forall>resp um. snd (generate_llm_response w gpt_type messages llm_url) = Inr (resp, um) \<longrightarrow>
              (\<exists>key c. environ w ''OPENAI_API_KEY'' = Some key
                 \<and> openai_create w key gpt_type messages = Inr c
                 \<and> um = usage c
                 \<and> fst (generate_llm_response w gpt_type messages llm_url)
                          = [OpenAIChat key gpt_type messages])"
    using h by (auto simp add: generate_llm_response_def split: option.splits sum.splits list.splits)
  show "\<forall>key c ch chs. environ w ''OPENAI_API_KEY'' = Some key
              \<and> openai_create w key gpt_type messages = Inr c \<and> choices c = ch # chs \<longrightarrow>
              generate_llm_response w gpt_type messages llm_url =
                ([OpenAIChat key gpt_type messages], Inr (pyval_of_opt ch, usage c))"
    using h by (simp add: generate_llm_response_def)
next
  assume h: "gpt_type \<notin> OPENAI_GPT_TYPES"
  show "fst (generate_llm_response w gpt_type messages llm_url) =
          [HttpPost (fstr_opt llm_url @ ''/v1/chat/completions'')
             [(''Content-Type'', ''application/json'')]
             \<lparr> req_model = gpt_type, req_messages = messages, req_temperature = (7, -1) \<rparr>]"
    using h by (simp add: generate_llm_response_def Let_def)
  show "\<forall>resp um. snd (generate_llm_response w gpt_type messages llm_url) = Inr (resp, um) \<longrightarrow>
              um = None"
    using h by (auto simp add: generate_llm_response_def Let_def bindE_Inr_iff split: sum.splits)
qed (simp_all add: OPENAI_GPT_TYPES_def)

theorem generate_llm_response_dispatch_witness:
  "''gpt-4'' \<in> OPENAI_GPT_TYPES
   \<and> environ example_world ''OPENAI_API_KEY'' = Some ''sk''
   \<and> openai_create example_world ''sk'' ''gpt-4'' [] =
        Inr \<lparr> choices = [Some ''LGTM''], usage = Some example_usage \<rparr>
   \<and> generate_llm_response example_world ''gpt-4'' [] None =
       ([OpenAIChat ''sk'' ''gpt-4'' []], Inr (PyStr ''LGTM'', Some example_usage))
   \<and> ''llama-local'' \<notin> OPENAI_GPT_TYPES
   \<and> generate_llm_response example_world ''llama-local'' [] (Some ''http://localhost:8000'') =
       ([HttpPost ''http://localhost:8000/v1/chat/completions''
           [(''Content-Type'', ''application/json'')]
           \<lparr> req_model = ''llama-local'', req_messages = [], req_temperature = (7, -1) \<rparr>],
        Inr (PyStr ''fine'', None))"
  using generate_llm_response_dispatch [of "''gpt-4''" example_world "[]" None]
    generate_llm_response_dispatch [of "''llama-local''" example_world "[]" "Some ''http://localhost:8000''"]
    example_generate [of "[]" None] example_generate_local [of "[]"]
  by (simp add: example_world_def)

section \<open>The empty conversation\<close>

lemma getitem_str_not_ValueError: "getitem_str v k \<noteq> Inl (ValueError m)"
  by (cases v) (simp_all add: not_subscriptable_def split: option.splits)

lemma getitem_0_not_ValueError: "getitem_0 v \<noteq> Inl (ValueError m)"
  by (cases v rule: getitem_0.cases) (simp_all add: not_subscriptable_def)

lemma generate_llm_response_ValueError:
  assumes "snd (generate_llm_response w gpt_type msgs llm_url) = Inl (ValueError m)"
  shows "gpt_type \<in> OPENAI_GPT_TYPES \<and> environ w ''OPENAI_API_KEY'' = None
          \<and> m = ''OPENAI_API_KEY is not set''"
proof (cases "gpt_type \<in> OPENAI_GPT_TYPES")
  case True
  show ?thesis
  proof (cases "environ w ''OPENAI_API_KEY''")
    case None
    with True assms show ?thesis by (simp add: generate_llm_response_def)
  next
    case (Some key)
    with True assms have False
      by (simp add: generate_llm_response_def split: sum.splits list.splits)
    then show ?thesis ..
  qed
next
  case False
  with assms have False
    by (simp add: generate_llm_response_def Let_def bindE_Inl_iff
          getitem_str_not_ValueError getitem_0_not_ValueError split: sum.splits)
  then show ?thesis ..
qed

lemma example_key: "environ example_world ''OPENAI_API_KEY'' = Some ''sk''"
  by (simp add: example_world_def)

lemma example_create:
  "openai_create example_world ''sk'' ''gpt-4'' [] =
     Inr \<lparr> choices = [Some ''LGTM''], usage = Some example_usage \<rparr>"
  by (simp add: example_world_def)

lemma example_post:
  "requests_post example_world (fstr_opt (Some ''http://localhost:8000'') @ ''/v1/chat/completions'')
     [(''Content-Type'', ''application/json'')]
     \<lparr> req_model = ''llama-local'', req_messages = [], req_temperature = (7, -1) \<rparr>
   = Inr example_reply"
  by (simp add: example_world_def fstr_opt_def)

lemma example_reply_content:
  "getitem_str example_reply ''choices''
     = Inr (PyList [PyDict [(''message'', PyDict [(''content'', PyStr ''fine'')])]])"
  "getitem_0 (PyList [PyDict [(''message'', PyDict [(''content'', PyStr ''fine'')])]])
     = Inr (PyDict [(''message'', PyDict [(''content'', PyStr ''fine'')])])"
  "getitem_str (PyDict [(''message'', PyDict [(''content'', PyStr ''fine'')])]) ''message''
     = Inr (PyDict [(''content'', PyStr ''fine'')])"
  "getitem_str (PyDict [(''content'', PyStr ''fine'')]) ''content'' = Inr (PyStr ''fine'')"
  by (simp_all add: example_reply_def)

text \<open>
  C8, as stated: sending the empty conversation fails with a configuration-level error and
  makes no backend call. In the example world the hosted client is called with the empty
  list of messages and its answer is returned.
\<close>

theorem generate_llm_response_empty_counterexample:
  "generate_llm_response example_world ''gpt-4'' [] None =
     ([OpenAIChat ''sk'' ''gpt-4'' []], Inr (PyStr ''LGTM'', Some example_usage))"
  by (rule example_generate)

text \<open>
  C8, amended. The send operation does not look at the conversation. For the empty
  conversation and a hosted model: without the API key the result is the ValueError for
  the key and no call is made; with the key the chat client is called with no messages,
  a failure of the call is the failure of the operation, and the answer of the backend is
  returned with the usage of the completion. For any other model the POST is made with no
  messages (the call may raise inside the HTTP library, also before anything is sent), a
  failure of the call is the failure of the operation, and the content of the reply is
  returned without usage. The only ValueError is the one for the key, and it is the only
  case in which no call is made.
\<close>

theorem generate_llm_response_empty:
  "(gpt_type \<in> OPENAI_GPT_TYPES \<longrightarrow>
      (environ w ''OPENAI_API_KEY'' = None \<longrightarrow>
         generate_llm_response w gpt_type [] llm_url =
           ([], Inl (ValueError ''OPENAI_API_KEY is not set'')))
      \<and> (\<forall>key. environ w ''OPENAI_API_KEY'' = Some key \<longrightarrow>
           fst (generate_llm_response w gpt_type [] llm_url) = [OpenAIChat key gpt_type []]
           \<and> (\<forall>m. openai_create w key gpt_type [] = Inl m \<longrightarrow>
                 snd (generate_llm_response w gpt_type [] llm_url) = Inl (ExternalError m))
           \<and> (\<forall>c ch chs. openai_create w key gpt_type [] = Inr c \<and> choices c = ch # chs \<longrightarrow>
                 snd (generate_llm_response w gpt_type [] llm_url)
                   = Inr (pyval_of_opt ch, usage c))))
   \<and> (gpt_type \<notin> OPENAI_GPT_TYPES \<longrightarrow>
        fst (generate_llm_response w gpt_type [] llm_url) =
          [HttpPost (fstr_opt llm_url @ ''/v1/chat/completions'')
             [(''Content-Type'', ''application/json'')]
             \<lparr> req_model = gpt_type, req_messages = [], req_temperature = (7, -1) \<rparr>]
        \<and> (\<forall>m. requests_post w (fstr_opt llm_url @ ''/v1/chat/completions'')
                  [(''Content-Type'', ''application/json'')]
                  \<lparr> req_model = gpt_type, req_messages = [], req_temperature = (7, -1) \<rparr> = Inl m
               \<longrightarrow> snd (generate_llm_response w gpt_type [] llm_url) = Inl (ExternalError m))
        \<and> (\<forall>resp cs c0 msg c.
               requests_post w (fstr_opt llm_url @ ''/v1/chat/completions'')
                  [(''Content-Type'', ''application/json'')]
                  \<lparr> req_model = gpt_type, req_messages = [], req_temperature = (7, -1) \<rparr> = Inr resp
               \<and> getitem_str resp ''choices'' = Inr cs \<and> getitem_0 cs = Inr c0
               \<and> getitem_str c0 ''message'' = Inr msg \<and> getitem_str msg ''content'' = Inr c
               \<longrightarrow> snd (generate_llm_response w gpt_type [] llm_url) = Inr (c, None)))
   \<and> (\<forall>m. snd (generate_llm_response w gpt_type [] llm_url) = Inl (ValueError m) \<longrightarrow>
          gpt_type \<in> OPENAI_GPT_TYPES \<and> environ w ''OPENAI_API_KEY'' = None
          \<and> m = ''OPENAI_API_KEY is not set'')
   \<and> (fst (generate_llm_response w gpt_type [] llm_url) = [] \<longleftrightarrow>
        gpt_type \<in> OPENAI_GPT_TYPES \<and> environ w ''OPENAI_API_KEY'' = None)"
proof (intro conjI impI allI)
  assume h: "gpt_type \<in> OPENAI_GPT_TYPES"
  show "generate_llm_response w gpt_type [] llm_url =
           ([], Inl (ValueError ''OPENAI_API_KEY is not set''))"
    if "environ w ''OPENAI_API_KEY'' = None"
    using h that by (simp add: generate_llm_response_def)
  show "fst (generate_llm_response w gpt_type [] llm_url) = [OpenAIChat key gpt_type []]"
    if "environ w ''OPENAI_API_KEY'' = Some key" for key
    using h that by (simp add: generate_llm_response_def)
  show "snd (generate_llm_response w gpt_type [] llm_url) = Inl (ExternalError m)"
    if "environ w ''OPENAI_API_KEY'' = Some key" "openai_create w key gpt_type [] = Inl m" for key m
    using h that by (simp add: generate_llm_response_def)
  show "snd (generate_llm_response w gpt_type [] llm_url) = Inr (pyval_of_opt ch, usage c)"
    if "environ w ''OPENAI_API_KEY'' = Some key"
       "openai_create w key gpt_type [] = Inr c \<and> choices c = ch # chs" for key c ch chs
    using h that by (simp add: generate_llm_response_def)
next
  assume h: "gpt_type \<notin> OPENAI_GPT_TYPES"
  let ?url = "fstr_opt llm_url @ ''/v1/chat/completions''"
  let ?hs = "[(''Content-Type'', ''application/json'')]"
  let ?data = "\<lparr> req_model = gpt_type, req_messages = [], req_temperature = (7, -1) \<rparr>"
  show "fst (generate_llm_response w gpt_type [] llm_url) = [HttpPost ?url ?hs ?data]"
    using h by (simp add: generate_llm_response_def Let_def)
  show "snd (generate_llm_response w gpt_type [] llm_url) = Inl (ExternalError m)"
    if "requests_post w ?url ?hs ?data = Inl m" for m
    using h that by (simp add: generate_llm_response_def Let_def)
  show "snd (generate_llm_response w gpt_type [] llm_url) = Inr (c, None)"
    if "requests_post w ?url ?hs ?data = Inr resp
        \<and> getitem_str resp ''choices'' = Inr cs \<and> getitem_0 cs = Inr c0
        \<and> getitem_str c0 ''message'' = Inr msg \<and> getitem_str msg ''content'' = Inr c"
    for resp cs c0 msg c
    using h that by (simp add: generate_llm_response_def Let_def bindE_def)
next
  fix m
  assume v: "snd (generate_llm_response w gpt_type [] llm_url) = Inl (ValueError m)"
  have "gpt_type \<in> OPENAI_GPT_TYPES \<and> environ w ''OPENAI_API_KEY'' = None
          \<and> m = ''OPENAI_API_KEY is not set''"
    using v by (rule generate_llm_response_ValueError)
  then show "gpt_type \<in> OPENAI_GPT_TYPES" "environ w ''OPENAI_API_KEY'' = None"
    "m = ''OPENAI_API_KEY is not set''"
    by simp_all
next
  show "fst (generate_llm_response w gpt_type [] llm_url) = [] \<longleftrightarrow>
        gpt_type \<in> OPENAI_GPT_TYPES \<and> environ w ''OPENAI_API_KEY'' = None"
    by (auto simp add: generate_llm_response_def Let_def split: option.splits)
qed

theorem generate_llm_response_empty_witness:
  "''gpt-4'' \<in> OPENAI_GPT_TYPES \<and> environ example_world ''OPENAI_API_KEY'' = Some ''sk''
   \<and> fst (generate_llm_response example_world ''gpt-4'' [] None) = [OpenAIChat ''sk'' ''gpt-4'' []]
   \<and> snd (generate_llm_response example_world ''gpt-4'' [] None)
        = Inr (pyval_of_opt (Some ''LGTM''), Some example_usage)
   \<and> ''llama-local'' \<notin> OPENAI_GPT_TYPES
   \<and> snd (generate_llm_response example_world ''llama-local'' [] (Some ''http://localhost:8000''))
        = Inr (PyStr ''fine'', None)
   \<and> environ (example_world\<lparr> environ := Map.empty \<rparr>) ''OPENAI_API_KEY'' = None
   \<and> generate_llm_response (example_world\<lparr> environ := Map.empty \<rparr>) ''gpt-4'' [] None
       = ([], Inl (ValueError ''OPENAI_API_KEY is not set''))"
proof -
  note hosted = generate_llm_response_empty [of "''gpt-4''" example_world None]
  note nokey = generate_llm_response_empty [of "''gpt-4''" "example_world\<lparr> environ := Map.empty \<rparr>" None]
  note selfh = generate_llm_response_empty
                 [of "''llama-local''" example_world "Some ''http://localhost:8000''"]
  have e: "environ (example_world\<lparr> environ := Map.empty \<rparr>) ''OPENAI_API_KEY'' = None"
    by simp
  have c: "choices \<lparr> choices = [Some ''LGTM''], usage = Some example_usage \<rparr> = Some ''LGTM'' # []"
          "usage \<lparr> choices = [Some ''LGTM''], usage = Some example_usage \<rparr> = Some example_usage"
    by simp_all
  have 1: "fst (generate_llm_response example_world ''gpt-4'' [] None)
             = [OpenAIChat ''sk'' ''gpt-4'' []]"
    using hosted gpt4_hosted example_key by blast
  have 2: "snd (generate_llm_response example_world ''gpt-4'' [] None)
             = Inr (pyval_of_opt (Some ''LGTM''), Some example_usage)"
    using hosted gpt4_hosted example_key example_create c by metis
  have 3: "snd (generate_llm_response example_world ''llama-local'' []
                  (Some ''http://localhost:8000'')) = Inr (PyStr ''fine'', None)"
    using selfh llama_not_hosted example_post example_reply_content by blast
  have 4: "generate_llm_response (example_world\<lparr> environ := Map.empty \<rparr>) ''gpt-4'' [] None
       = ([], Inl (ValueError ''OPENAI_API_KEY is not set''))"
    using nokey gpt4_hosted e by blast
  show ?thesis
    using 1 2 3 4 gpt4_hosted llama_not_hosted example_key e by blast
qed

section \<open>The optional description\<close>

lemma lookup_description_absent:
  "map_of kvs ''description'' = None \<Longrightarrow> lookup_description (PyDict kvs) = Inr (PyStr [])"
  by (simp add: lookup_description_def)

lemma getitem_str_append_other:
  "k \<noteq> k' \<Longrightarrow> getitem_str (PyDict (kvs @ [(k', v)])) k = getitem_str (PyDict kvs) k"
  by (simp add: map_add_def split: option.splits)

lemma lookup_description_present:
  "map_of kvs ''description'' = None \<Longrightarrow>
   lookup_description (PyDict (kvs @ [(''description'', v)])) = Inr v"
  by (simp add: lookup_description_def map_add_def)

lemma get_data_from_description:
  assumes a: "map_of kvs ''description'' = None"
  shows "get_data_from (PyDict kvs) pr_diff_data =
         get_data_from (PyDict (kvs @ [(''description'', PyStr [])])) pr_diff_data"
proof -
  have t: "getitem_str (PyDict (kvs @ [(''description'', PyStr [])])) ''title''
             = getitem_str (PyDict kvs) ''title''"
    by (rule getitem_str_append_other) simp
  have l: "getitem_str (PyDict (kvs @ [(''description'', PyStr [])])) ''links''
             = getitem_str (PyDict kvs) ''links''"
    by (rule getitem_str_append_other) simp
  show ?thesis
    unfolding get_data_from_def
    by (simp only: lookup_description_absent [OF a] lookup_description_present [OF a] t l)
qed

lemma url_diff_info: "url_diff api = url_info api @ ''/diff''"
  by (simp add: url_diff_def url_info_def)

lemma url_diff_neq_info: "url_diff api \<noteq> url_info api"
  by (simp add: url_diff_info)

lemma get_data_responses:
  "requests_get w (url_info api) (headers api) = Inr i \<Longrightarrow>
   requests_get w (url_diff api) (headers api) = Inr d \<Longrightarrow>
   get_data w api =
     ([HttpGet (url_info api) (headers api), HttpGet (url_diff api) (headers api)],
      get_data_from i d)"
  by (simp add: get_data_def get_repo_info_from_stash_def get_repo_diff_data_from_stash_def
        http_get_json_def bindW_def)

lemma getitem_str_KeyError: "getitem_str v k = Inl (KeyError m) \<Longrightarrow> m = repr_str k"
  by (cases v) (simp_all add: not_subscriptable_def split: option.splits)

lemma getitem_0_KeyError: "getitem_0 v = Inl (KeyError m) \<Longrightarrow> m = ''0''"
  by (cases v rule: getitem_0.cases) (simp_all add: not_subscriptable_def)

lemma get_data_from_no_description_error:
  assumes a: "map_of kvs ''description'' = None"
  shows "get_data_from (PyDict kvs) pr_diff_data \<noteq> Inl (KeyError (repr_str ''description''))"
proof
  assume "get_data_from (PyDict kvs) pr_diff_data = Inl (KeyError (repr_str ''description''))"
  then show False
    unfolding get_data_from_def lookup_description_absent [OF a]
    by (auto simp add: bindE_Inl_iff repr_str_def
          dest!: getitem_str_KeyError getitem_0_KeyError simp del: getitem_str.simps)
qed

lemma example_url_info:
  "url_info example_api = ''http://stash/rest/api/latest/projects/MSYS/repos/manager/pull-requests/85''"
  by (simp add: url_info_def example_api_def str_of_int_def digits.simps)

lemma example_requests:
  "requests_get example_world (url_info example_api) (headers example_api) = Inr example_info"
  "requests_get example_world (url_diff example_api) (headers example_api) = Inr example_diff"
  by (simp_all add: example_url_info url_diff_info example_world_def)

text \<open>
  C6. When the metadata response is an object without the field \<^verbatim>\<open>description\<close> (and the
  diff request is answered), the lookup of the description gives the empty string and
  \<open>get_data\<close> does exactly what it does on the same response with the field present and
  empty. It never fails with the KeyError of the missing field; when the fields it needs
  are there (both hashes, the title and the link) it returns, after the two requests, the
  data with the empty string as description; and every result it returns has the empty
  string, not \<^verbatim>\<open>None\<close>, as description.
\<close>

theorem get_data_description_default:
  "map_of kvs ''description'' = None \<Longrightarrow>
   requests_get w (url_info api) (headers api) = Inr (PyDict kvs) \<Longrightarrow>
   requests_get w (url_diff api) (headers api) = Inr pr_diff_data \<Longrightarrow>
     lookup_description (PyDict kvs) = Inr (PyStr [])
   \<and> get_data w api =
       get_data (w\<lparr> requests_get := (\<lambda>url hs. if url = url_info api
                                              then Inr (PyDict (kvs @ [(''description'', PyStr [])]))
                                              else requests_get w url hs) \<rparr>) api
   \<and> snd (get_data w api) \<noteq> Inl (KeyError (repr_str ''description''))
   \<and> (\<forall>to_c from_c title links self self0 href.
         getitem_str pr_diff_data ''toHash'' = Inr to_c
         \<and> getitem_str pr_diff_data ''fromHash'' = Inr from_c
         \<and> getitem_str (PyDict kvs) ''title'' = Inr title
         \<and> getitem_str (PyDict kvs) ''links'' = Inr links
         \<and> getitem_str links ''self'' = Inr self
         \<and> getitem_0 self = Inr self0
         \<and> getitem_str self0 ''href'' = Inr href \<longrightarrow>
         get_data w api =
           ([HttpGet (url_info api) (headers api), HttpGet (url_diff api) (headers api)],
            Inr \<lparr> to_commit = to_c, from_commit = from_c, pr_title = title,
                  pr_description = PyStr [], pr_link = href \<rparr>))
   \<and> (\<forall>d. snd (get_data w api) = Inr d \<longrightarrow> pr_description d = PyStr [])"
proof (intro conjI allI impI)
  assume a: "map_of kvs ''description'' = None"
    and i: "requests_get w (url_info api) (headers api) = Inr (PyDict kvs)"
    and d: "requests_get w (url_diff api) (headers api) = Inr pr_diff_data"
  note g = get_data_responses [OF i d]
  show "lookup_description (PyDict kvs) = Inr (PyStr [])"
    using a by (rule lookup_description_absent)
  let ?w' = "w\<lparr> requests_get := (\<lambda>url hs. if url = url_info api
                                              then Inr (PyDict (kvs @ [(''description'', PyStr [])]))
                                              else requests_get w url hs) \<rparr>"
  have "get_data ?w' api =
     ([HttpGet (url_info api) (headers api), HttpGet (url_diff api) (headers api)],
      get_data_from (PyDict (kvs @ [(''description'', PyStr [])])) pr_diff_data)"
    by (rule get_data_responses) (simp_all add: url_diff_neq_info d)
  then show "get_data w api = get_data ?w' api"
    by (simp add: g get_data_from_description [OF a])
  show "snd (get_data w api) \<noteq> Inl (KeyError (repr_str ''description''))"
    by (simp add: g get_data_from_no_description_error [OF a])
  show "get_data w api =
           ([HttpGet (url_info api) (headers api), HttpGet (url_diff api) (headers api)],
            Inr \<lparr> to_commit = to_c, from_commit = from_c, pr_title = title,
                  pr_description = PyStr [], pr_link = href \<rparr>)"
    if "getitem_str pr_diff_data ''toHash'' = Inr to_c
         \<and> getitem_str pr_diff_data ''fromHash'' = Inr from_c
         \<and> getitem_str (PyDict kvs) ''title'' = Inr title
         \<and> getitem_str (PyDict kvs) ''links'' = Inr links
         \<and> getitem_str links ''self'' = Inr self
         \<and> getitem_0 self = Inr self0
         \<and> getitem_str self0 ''href'' = Inr href"
    for to_c from_c title links self self0 href
    using that unfolding g get_data_from_def lookup_description_absent [OF a]
    by (simp add: bindE_def del: getitem_str.simps)
  show "pr_description x = PyStr []" if "snd (get_data w api) = Inr x" for x
    using that unfolding g get_data_from_def lookup_description_absent [OF a]
    by (auto simp add: bindE_Inr_iff simp del: getitem_str.simps)
qed

theorem get_data_description_default_witness:
  "map_of [(''title'', PyStr ''Fix parser''),
           (''links'', PyDict [(''self'', PyList [PyDict [(''href'', PyStr ''http://stash/pr/85'')]])])]
      ''description'' = None
   \<and> requests_get example_world (url_info example_api) (headers example_api)
       = Inr (PyDict [(''title'', PyStr ''Fix parser''),
           (''links'', PyDict [(''self'', PyList [PyDict [(''href'', PyStr ''http://stash/pr/85'')]])])])
   \<and> requests_get example_world (url_diff example_api) (headers example_api) = Inr example_diff
   \<and> get_data example_world example_api =
       ([HttpGet (url_info example_api) (headers example_api),
         HttpGet (url_diff example_api) (headers example_api)],
        Inr \<lparr> to_commit = PyStr ''b2'', from_commit = PyStr ''a1'', pr_title = PyStr ''Fix parser'',
              pr_description = PyStr [], pr_link = PyStr ''http://stash/pr/85'' \<rparr>)"
proof -
  let ?kvs = "[(''title'', PyStr ''Fix parser''),
           (''links'', PyDict [(''self'', PyList [PyDict [(''href'', PyStr ''http://stash/pr/85'')]])])]"
  have m: "map_of ?kvs ''description'' = None" by simp
  have i: "requests_get example_world (url_info example_api) (headers example_api) = Inr (PyDict ?kvs)"
    using example_requests(1) by (simp add: example_info_def)
  note d = example_requests(2)
  note descr_default = get_data_description_default [OF m i d]
  have l: "getitem_str example_diff ''toHash'' = Inr (PyStr ''b2'')
         \<and> getitem_str example_diff ''fromHash'' = Inr (PyStr ''a1'')
         \<and> getitem_str (PyDict ?kvs) ''title'' = Inr (PyStr ''Fix parser'')
         \<and> getitem_str (PyDict ?kvs) ''links'' = Inr (PyDict [(''self'', PyList [PyDict [(''href'', PyStr ''http://stash/pr/85'')]])])
         \<and> getitem_str (PyDict [(''self'', PyList [PyDict [(''href'', PyStr ''http://stash/pr/85'')]])]) ''self''
             = Inr (PyList [PyDict [(''href'', PyStr ''http://stash/pr/85'')]])
         \<and> getitem_0 (PyList [PyDict [(''href'', PyStr ''http://stash/pr/85'')]])
             = Inr (PyDict [(''href'', PyStr ''http://stash/pr/85'')])
         \<and> getitem_str (PyDict [(''href'', PyStr ''http://stash/pr/85'')]) ''href''
             = Inr (PyStr ''http://stash/pr/85'')"
    by (simp add: example_diff_def)
  have "get_data example_world example_api =
       ([HttpGet (url_info example_api) (headers example_api),
         HttpGet (url_diff example_api) (headers example_api)],
        Inr \<lparr> to_commit = PyStr ''b2'', from_commit = PyStr ''a1'', pr_title = PyStr ''Fix parser'',
              pr_description = PyStr [], pr_link = PyStr ''http://stash/pr/85'' \<rparr>)"
    using descr_default l by blast
  then show ?thesis using m i d by blast
qed

section \<open>The two calls of the diff tool\<close>

lemma fst_bindW_Inr: "snd r = Inr x \<Longrightarrow> fst (bindW r f) = fst r @ fst (f x)"
  by (simp add: bindW_def)

lemma snd_bindW_Inr: "snd r = Inr x \<Longrightarrow> snd (bindW r f) = snd (f x)"
  by (simp add: bindW_def)

lemma fst_bindW_ex: "\<exists>evs. fst (bindW r f) = fst r @ evs"
  by (cases "snd r") (simp_all add: bindW_def)

lemma cmd_strings_map: "cmd_strings (map PyStr ss) = Inr ss"
  by (induction ss) (simp_all add: bindE_def)

lemma name_status_cmd_strings:
  "cmd_strings (name_status_cmd (PyStr f) (PyStr t)) =
     Inr [''git'', ''diff'', ''--name-status'', f, t]"
  by (simp add: name_status_cmd_def bindE_def)

lemma diff_cmd_strings:
  "cmd_strings (diff_cmd a (PyStr f) (PyStr t)) = Inr (diff_cmd_line a f t)"
proof -
  have "diff_cmd a (PyStr f) (PyStr t) = map PyStr (diff_cmd_line a f t)"
    by (simp add: diff_cmd_def diff_cmd_line_def)
  then show ?thesis by (simp only: cmd_strings_map)
qed

lemma fst_subprocess_check_output:
  "cmd_strings cmd = Inr ss \<Longrightarrow> fst (subprocess_check_output w cmd) = [Subprocess ss]"
  by (simp add: subprocess_check_output_def)

lemma snd_subprocess_check_output:
  "cmd_strings cmd = Inr ss \<Longrightarrow> check_output w ss = Inr out \<Longrightarrow>
   snd (subprocess_check_output w cmd) = Inr out"
  by (simp add: subprocess_check_output_def)

lemma console_print_returns:
  "console w ev = None \<Longrightarrow> console_print w ev = ([ev], Inr ())"
  by (simp add: console_print_def)

lemma main_git_calls:
  assumes api: "snd (make_api w a) = Inr api"
    and d: "snd (fetch_data w api) = Inr d"
    and f: "from_commit d = PyStr f" and t: "to_commit d = PyStr t"
    and c: "console w (info_table w d) = None"
    and ns: "check_output w [''git'', ''diff'', ''--name-status'', f, t] = Inr ns"
  shows "\<exists>evs. fst (main w a inputs) =
           fst (make_api w a) @ fst (fetch_data w api)
           @ [info_table w d,
              Subprocess [''git'', ''diff'', ''--name-status'', f, t],
              Subprocess (diff_cmd_line a f t)] @ evs"
proof -
  let ?k = "\<lambda>out. bindW (subprocess_check_output w (diff_cmd a (from_commit d) (to_commit d)))
              (\<lambda>dm. review w a d out dm inputs)"
  obtain evs where e: "fst (?k ns) = [Subprocess (diff_cmd_line a f t)] @ evs"
    using fst_bindW_ex [of "subprocess_check_output w (diff_cmd a (from_commit d) (to_commit d))"
            "\<lambda>dm. review w a d ns dm inputs"]
    by (auto simp add: f t fst_subprocess_check_output [OF diff_cmd_strings])
  have "fst (main w a inputs) =
          fst (make_api w a) @ fst (fetch_data w api) @ [info_table w d]
          @ [Subprocess [''git'', ''diff'', ''--name-status'', f, t]] @ fst (?k ns)"
    unfolding main_def
    by (simp add: fst_bindW_Inr [OF api] fst_bindW_Inr [OF d] console_print_returns [OF c]
          fst_bindW_Inr [where r = "([info_table w d], Inr ())"] f t
          fst_bindW_Inr [OF snd_subprocess_check_output [OF name_status_cmd_strings ns]]
          fst_subprocess_check_output [OF name_status_cmd_strings])
  then show ?thesis using e by simp
qed

lemma take14_filter [simp]: "take 14 (''--diff-filter='' @ x) = ''--diff-filter=''"
  by simp

lemma filter_option_name_status:
  "take 14 f \<noteq> ''--diff-filter='' \<Longrightarrow> take 14 t \<noteq> ''--diff-filter='' \<Longrightarrow>
   filter_option [''git'', ''diff'', ''--name-status'', f, t] = None"
  by (simp add: filter_option_def)

lemma filter_option_diff_cmd_line:
  "filter_option (diff_cmd_line a f t) = Some (diff_filter a)"
  by (simp add: filter_option_def diff_cmd_line_def)

section \<open>The example run\<close>

lemma example_make_api:
  "make_api example_world example_args = ([], Inr example_api)"
  "make_api readme_world example_args = ([], Inr example_api)"
  "make_api readme_world (example_args\<lparr> args_show_diff_only := True \<rparr>) = ([], Inr example_api)"
  by (simp_all add: make_api_def example_args_def StashAPI_init_cases example_world_def
        readme_world_def example_api_def)

lemma readme_requests:
  "requests_get readme_world = requests_get example_world"
  by (simp add: readme_world_def)

lemma example_get_data:
  "get_data example_world example_api =
     ([HttpGet (url_info example_api) (headers example_api),
       HttpGet (url_diff example_api) (headers example_api)], Inr example_data)"
  "get_data readme_world example_api =
     ([HttpGet (url_info example_api) (headers example_api),
       HttpGet (url_diff example_api) (headers example_api)], Inr example_data)"
proof -
  have g: "get_data_from example_info example_diff = Inr example_data"
    by (simp add: get_data_from_def example_info_def example_diff_def bindE_def
          lookup_description_def example_data_def)
  show "get_data example_world example_api =
     ([HttpGet (url_info example_api) (headers example_api),
       HttpGet (url_diff example_api) (headers example_api)], Inr example_data)"
    using get_data_responses [OF example_requests] by (simp add: g)
  have "requests_get readme_world (url_info example_api) (headers example_api) = Inr example_info"
       "requests_get readme_world (url_diff example_api) (headers example_api) = Inr example_diff"
    by (simp_all add: readme_requests example_requests)
  then show "get_data readme_world example_api =
     ([HttpGet (url_info example_api) (headers example_api),
       HttpGet (url_diff example_api) (headers example_api)], Inr example_data)"
    using get_data_responses by (simp add: g)
qed

lemma example_fetch_data:
  "fetch_data example_world example_api =
     ([HttpGet (url_info example_api) (headers example_api),
       HttpGet (url_diff example_api) (headers example_api)], Inr example_data)"
  "fetch_data readme_world example_api =
     ([HttpGet (url_info example_api) (headers example_api),
       HttpGet (url_diff example_api) (headers example_api)], Inr example_data)"
  by (simp_all add: fetch_data_def example_get_data)

lemma example_console: "console example_world ev = None" "console readme_world ev = None"
  by (simp_all add: example_world_def readme_world_def)

lemma example_name_status:
  "check_output example_world [''git'', ''diff'', ''--name-status'', ''a1'', ''b2'']
     = Inr (''M'' @ [CHR 0x09] @ ''file.py'')"
  "check_output readme_world [''git'', ''diff'', ''--name-status'', ''a1'', ''b2'']
     = Inr (''M'' @ [CHR 0x09] @ ''README.md'')"
  by (simp_all add: example_world_def readme_world_def)

lemma example_diff_cmd_line:
  "diff_cmd_line example_args ''a1'' ''b2'' =
     [''git'', ''diff'', ''--diff-filter=M'', ''-U10'', ''a1'', ''b2'', ''--'', ''.'', '':(exclude)*md'']"
  "diff_cmd_line (example_args\<lparr> args_show_diff_only := True \<rparr>) ''a1'' ''b2'' =
     [''git'', ''diff'', ''--diff-filter=M'', ''-U10'', ''a1'', ''b2'', ''--'', ''.'', '':(exclude)*md'']"
  by (simp_all add: diff_cmd_line_def example_args_def diff_filter_def str_of_int_def digits.simps)

section \<open>Change-kind filters\<close>

text \<open>
  C7. For revisions that are not themselves filter options: the command of the name-status
  call is \<^verbatim>\<open>git diff --name-status from to\<close>, with no change-kind filter, so the tool
  reports every change. The command of the unified diff carries \<^verbatim>\<open>--diff-filter=M\<close>,
  and \<^verbatim>\<open>--diff-filter=MA\<close> with the exhaustive-analysis flag: without the flag the tool
  reports exactly the Modified changes, with it exactly the Modified and the Added ones,
  a superset. A run that reaches the diff tool calls it with these two commands, in this
  order.
\<close>

theorem diff_commands_filter:
  "take 14 f \<noteq> ''--diff-filter='' \<Longrightarrow> take 14 t \<noteq> ''--diff-filter='' \<Longrightarrow>
     cmd_strings (name_status_cmd (PyStr f) (PyStr t)) =
       Inr [''git'', ''diff'', ''--name-status'', f, t]
   \<and> cmd_strings (diff_cmd a (PyStr f) (PyStr t)) =
       Inr ([''git'', ''diff'', ''--diff-filter='' @ diff_filter a,
             ''-U'' @ str_of_int (args_nb_context_lines a), f, t]
            @ (if args_exclude_file_types a \<noteq> []
               then [''--'', ''.''] @ map (\<lambda>x. '':(exclude)*'' @ x) (args_exclude_file_types a)
               else []))
   \<and> diff_filter a = (if args_exhaustive_analysis a then ''MA'' else ''M'')
   \<and> (\<forall>c. cmd_strings (name_status_cmd (PyStr f) (PyStr t)) = Inr c \<longrightarrow>
          reported c changes = changes)
   \<and> (\<forall>c. cmd_strings (diff_cmd (a\<lparr> args_exhaustive_analysis := False \<rparr>) (PyStr f) (PyStr t)) = Inr c \<longrightarrow>
          reported c changes = filter (\<lambda>x. fst x = CHR ''M'') changes)
   \<and> (\<forall>c. cmd_strings (diff_cmd (a\<lparr> args_exhaustive_analysis := True \<rparr>) (PyStr f) (PyStr t)) = Inr c \<longrightarrow>
          reported c changes = filter (\<lambda>x. fst x = CHR ''M'' \<or> fst x = CHR ''A'') changes)
   \<and> (\<forall>c0 c1. cmd_strings (diff_cmd (a\<lparr> args_exhaustive_analysis := False \<rparr>) (PyStr f) (PyStr t)) = Inr c0
          \<and> cmd_strings (diff_cmd (a\<lparr> args_exhaustive_analysis := True \<rparr>) (PyStr f) (PyStr t)) = Inr c1 \<longrightarrow>
          set (reported c0 changes) \<subseteq> set (reported c1 changes))
   \<and> (\<forall>w api d inputs ns.
          snd (make_api w a) = Inr api \<and> snd (fetch_data w api) = Inr d
          \<and> from_commit d = PyStr f \<and> to_commit d = PyStr t
          \<and> console w (info_table w d) = None
          \<and> check_output w [''git'', ''diff'', ''--name-status'', f, t] = Inr ns \<longrightarrow>
          (\<exists>evs. fst (main w a inputs) =
             fst (make_api w a) @ fst (fetch_data w api)
             @ [info_table w d,
                Subprocess [''git'', ''diff'', ''--name-status'', f, t],
                Subprocess ([''git'', ''diff'', ''--diff-filter='' @ diff_filter a,
                             ''-U'' @ str_of_int (args_nb_context_lines a), f, t]
                            @ (if args_exclude_file_types a \<noteq> []
                               then [''--'', ''.'']
                                    @ map (\<lambda>x. '':(exclude)*'' @ x) (args_exclude_file_types a)
                               else []))] @ evs))"
proof (intro conjI allI impI)
  assume f: "take 14 f \<noteq> ''--diff-filter=''" and t: "take 14 t \<noteq> ''--diff-filter=''"
  show "cmd_strings (name_status_cmd (PyStr f) (PyStr t)) =
       Inr [''git'', ''diff'', ''--name-status'', f, t]"
    by (rule name_status_cmd_strings)
  show "cmd_strings (diff_cmd a (PyStr f) (PyStr t)) =
       Inr ([''git'', ''diff'', ''--diff-filter='' @ diff_filter a,
             ''-U'' @ str_of_int (args_nb_context_lines a), f, t]
            @ (if args_exclude_file_types a \<noteq> []
               then [''--'', ''.''] @ map (\<lambda>x. '':(exclude)*'' @ x) (args_exclude_file_types a)
               else []))"
    using diff_cmd_strings [of a f t] by (simp only: diff_cmd_line_def)
  show "diff_filter a = (if args_exhaustive_analysis a then ''MA'' else ''M'')"
    by (simp add: diff_filter_def)
  show "reported c changes = changes"
    if "cmd_strings (name_status_cmd (PyStr f) (PyStr t)) = Inr c" for c
    using that by (auto simp add: name_status_cmd_strings reported_def
                      filter_option_name_status [OF f t])
  have r: "reported (diff_cmd_line b f t) changes = filter (\<lambda>x. fst x \<in> set (diff_filter b)) changes"
    for b
    by (simp add: reported_def filter_option_diff_cmd_line)
  show m: "reported c changes = filter (\<lambda>x. fst x = CHR ''M'') changes"
    if "cmd_strings (diff_cmd (a\<lparr> args_exhaustive_analysis := False \<rparr>) (PyStr f) (PyStr t)) = Inr c"
    for c
    using that r [of "a\<lparr> args_exhaustive_analysis := False \<rparr>"]
    by (simp add: diff_cmd_strings diff_filter_def)
  show ma: "reported c changes = filter (\<lambda>x. fst x = CHR ''M'' \<or> fst x = CHR ''A'') changes"
    if "cmd_strings (diff_cmd (a\<lparr> args_exhaustive_analysis := True \<rparr>) (PyStr f) (PyStr t)) = Inr c"
    for c
    using that r [of "a\<lparr> args_exhaustive_analysis := True \<rparr>"]
    by (simp add: diff_cmd_strings diff_filter_def)
  show "set (reported c0 changes) \<subseteq> set (reported c1 changes)"
    if "cmd_strings (diff_cmd (a\<lparr> args_exhaustive_analysis := False \<rparr>) (PyStr f) (PyStr t)) = Inr c0
          \<and> cmd_strings (diff_cmd (a\<lparr> args_exhaustive_analysis := True \<rparr>) (PyStr f) (PyStr t)) = Inr c1"
    for c0 c1
    using that m [of c0] ma [of c1] by auto
  show "\<exists>evs. fst (main w a inputs) =
             fst (make_api w a) @ fst (fetch_data w api)
             @ [info_table w d,
                Subprocess [''git'', ''diff'', ''--name-status'', f, t],
                Subprocess ([''git'', ''diff'', ''--diff-filter='' @ diff_filter a,
                             ''-U'' @ str_of_int (args_nb_context_lines a), f, t]
                            @ (if args_exclude_file_types a \<noteq> []
                               then [''--'', ''.'']
                                    @ map (\<lambda>x. '':(exclude)*'' @ x) (args_exclude_file_types a)
                               else []))] @ evs"
    if "snd (make_api w a) = Inr api \<and> snd (fetch_data w api) = Inr d
          \<and> from_commit d = PyStr f \<and> to_commit d = PyStr t
          \<and> console w (info_table w d) = None
          \<and> check_output w [''git'', ''diff'', ''--name-status'', f, t] = Inr ns"
    for w api d inputs ns
    using main_git_calls [of w a api d f t ns inputs] that
    by (simp only: diff_cmd_line_def)
qed

theorem diff_commands_filter_witness:
  "take 14 ''a1'' \<noteq> ''--diff-filter='' \<and> take 14 ''b2'' \<noteq> ''--diff-filter=''
   \<and> cmd_strings (diff_cmd (example_args\<lparr> args_exhaustive_analysis := False \<rparr>)
                     (PyStr ''a1'') (PyStr ''b2'')) =
       Inr [''git'', ''diff'', ''--diff-filter=M'', ''-U10'', ''a1'', ''b2'', ''--'', ''.'',
            '':(exclude)*md'']
   \<and> cmd_strings (diff_cmd (example_args\<lparr> args_exhaustive_analysis := True \<rparr>)
                     (PyStr ''a1'') (PyStr ''b2'')) =
       Inr [''git'', ''diff'', ''--diff-filter=MA'', ''-U10'', ''a1'', ''b2'', ''--'', ''.'',
            '':(exclude)*md'']
   \<and> reported [''git'', ''diff'', ''--name-status'', ''a1'', ''b2'']
        [(CHR ''M'', ''file.py''), (CHR ''A'', ''new.py''), (CHR ''D'', ''old.py'')]
       = [(CHR ''M'', ''file.py''), (CHR ''A'', ''new.py''), (CHR ''D'', ''old.py'')]
   \<and> reported [''git'', ''diff'', ''--diff-filter=M'', ''-U10'', ''a1'', ''b2'', ''--'', ''.'',
                 '':(exclude)*md'']
        [(CHR ''M'', ''file.py''), (CHR ''A'', ''new.py''), (CHR ''D'', ''old.py'')]
       = [(CHR ''M'', ''file.py'')]
   \<and> reported [''git'', ''diff'', ''--diff-filter=MA'', ''-U10'', ''a1'', ''b2'', ''--'', ''.'',
                 '':(exclude)*md'']
        [(CHR ''M'', ''file.py''), (CHR ''A'', ''new.py''), (CHR ''D'', ''old.py'')]
       = [(CHR ''M'', ''file.py''), (CHR ''A'', ''new.py'')]
   \<and> snd (make_api example_world example_args) = Inr example_api
   \<and> snd (fetch_data example_world example_api) = Inr example_data
   \<and> from_commit example_data = PyStr ''a1'' \<and> to_commit example_data = PyStr ''b2''
   \<and> console example_world (info_table example_world example_data) = None
   \<and> check_output example_world [''git'', ''diff'', ''--name-status'', ''a1'', ''b2'']
        = Inr (''M'' @ [CHR 0x09] @ ''file.py'')
   \<and> (\<exists>evs. fst (main example_world example_args []) =
         [HttpGet (url_info example_api) (headers example_api),
          HttpGet (url_diff example_api) (headers example_api),
          info_table example_world example_data,
          Subprocess [''git'', ''diff'', ''--name-status'', ''a1'', ''b2''],
          Subprocess [''git'', ''diff'', ''--diff-filter=M'', ''-U10'', ''a1'', ''b2'', ''--'', ''.'',
                      '':(exclude)*md'']] @ evs)"
proof -
  let ?ch = "[(CHR ''M'', ''file.py''), (CHR ''A'', ''new.py''), (CHR ''D'', ''old.py'')]"
  have f: "take 14 ''a1'' \<noteq> ''--diff-filter=''" and t: "take 14 ''b2'' \<noteq> ''--diff-filter=''"
    by simp_all
  note filters = diff_commands_filter [OF f t, of example_args ?ch]
  have s0: "cmd_strings (diff_cmd (example_args\<lparr> args_exhaustive_analysis := False \<rparr>)
                     (PyStr ''a1'') (PyStr ''b2'')) =
       Inr [''git'', ''diff'', ''--diff-filter=M'', ''-U10'', ''a1'', ''b2'', ''--'', ''.'',
            '':(exclude)*md'']"
    by (simp add: diff_cmd_strings diff_cmd_line_def example_args_def diff_filter_def
          str_of_int_def digits.simps)
  have s1: "cmd_strings (diff_cmd (example_args\<lparr> args_exhaustive_analysis := True \<rparr>)
                     (PyStr ''a1'') (PyStr ''b2'')) =
       Inr [''git'', ''diff'', ''--diff-filter=MA'', ''-U10'', ''a1'', ''b2'', ''--'', ''.'',
            '':(exclude)*md'']"
    by (simp add: diff_cmd_strings diff_cmd_line_def example_args_def diff_filter_def
          str_of_int_def digits.simps)
  have r0: "reported [''git'', ''diff'', ''--name-status'', ''a1'', ''b2''] ?ch = ?ch"
    using filters by blast
  have "reported [''git'', ''diff'', ''--diff-filter=M'', ''-U10'', ''a1'', ''b2'', ''--'', ''.'',
                 '':(exclude)*md''] ?ch = filter (\<lambda>x. fst x = CHR ''M'') ?ch"
    using filters s0 by blast
  then have r1: "reported [''git'', ''diff'', ''--diff-filter=M'', ''-U10'', ''a1'', ''b2'', ''--'', ''.'',
                 '':(exclude)*md''] ?ch = [(CHR ''M'', ''file.py'')]"
    by simp
  have "reported [''git'', ''diff'', ''--diff-filter=MA'', ''-U10'', ''a1'', ''b2'', ''--'', ''.'',
                 '':(exclude)*md''] ?ch = filter (\<lambda>x. fst x = CHR ''M'' \<or> fst x = CHR ''A'') ?ch"
    using filters s1 by blast
  then have r2: "reported [''git'', ''diff'', ''--diff-filter=MA'', ''-U10'', ''a1'', ''b2'', ''--'', ''.'',
                 '':(exclude)*md''] ?ch = [(CHR ''M'', ''file.py''), (CHR ''A'', ''new.py'')]"
    by simp
  have h: "snd (make_api example_world example_args) = Inr example_api"
          "snd (fetch_data example_world example_api) = Inr example_data"
          "from_commit example_data = PyStr ''a1''" "to_commit example_data = PyStr ''b2''"
          "console example_world (info_table example_world example_data) = None"
    by (simp_all add: example_make_api example_fetch_data example_data_def example_console)
  have "\<exists>evs. fst (main example_world example_args []) =
             fst (make_api example_world example_args) @ fst (fetch_data example_world example_api)
             @ [info_table example_world example_data,
                Subprocess [''git'', ''diff'', ''--name-status'', ''a1'', ''b2''],
                Subprocess ([''git'', ''diff'', ''--diff-filter='' @ diff_filter example_args,
                             ''-U'' @ str_of_int (args_nb_context_lines example_args), ''a1'', ''b2'']
                            @ (if args_exclude_file_types example_args \<noteq> []
                               then [''--'', ''.'']
                                    @ map (\<lambda>x. '':(exclude)*'' @ x) (args_exclude_file_types example_args)
                               else []))] @ evs"
    using filters h example_name_status(1) by blast
  then have m: "\<exists>evs. fst (main example_world example_args []) =
         [HttpGet (url_info example_api) (headers example_api),
          HttpGet (url_diff example_api) (headers example_api),
          info_table example_world example_data,
          Subprocess [''git'', ''diff'', ''--name-status'', ''a1'', ''b2''],
          Subprocess [''git'', ''diff'', ''--diff-filter=M'', ''-U10'', ''a1'', ''b2'', ''--'', ''.'',
                      '':(exclude)*md'']] @ evs"
    using example_diff_cmd_line(1)
    by (simp add: example_make_api example_fetch_data diff_cmd_line_def)
  show ?thesis
    using f t s0 s1 r0 r1 r2 h example_name_status(1) m by blast
qed

section \<open>The run after the two calls\<close>

lemma main_review:
  assumes api: "snd (make_api w a) = Inr api"
    and d: "snd (fetch_data w api) = Inr d"
    and f: "from_commit d = PyStr f" and t: "to_commit d = PyStr t"
    and c: "console w (info_table w d) = None"
    and ns: "check_output w [''git'', ''diff'', ''--name-status'', f, t] = Inr ns"
    and dm: "check_output w (diff_cmd_line a f t) = Inr dm"
  shows "main w a inputs =
           (fst (make_api w a) @ fst (fetch_data w api)
            @ [info_table w d,
               Subprocess [''git'', ''diff'', ''--name-status'', f, t],
               Subprocess (diff_cmd_line a f t)] @ fst (review w a d ns dm inputs),
            snd (review w a d ns dm inputs))"
proof -
  have 1: "snd (subprocess_check_output w (name_status_cmd (PyStr f) (PyStr t))) = Inr ns"
    by (rule snd_subprocess_check_output [OF name_status_cmd_strings ns])
  have 2: "snd (subprocess_check_output w (diff_cmd a (PyStr f) (PyStr t))) = Inr dm"
    by (rule snd_subprocess_check_output [OF diff_cmd_strings dm])
  have 3: "snd (console_print w (info_table w d)) = Inr ()"
    by (simp add: console_print_returns [OF c])
  show ?thesis
    unfolding main_def
    by (simp add: bindW_def api d f t 1 2 console_print_returns [OF c]
          fst_subprocess_check_output [OF name_status_cmd_strings]
          fst_subprocess_check_output [OF diff_cmd_strings])
qed

lemma review_diff_only:
  assumes "args_show_diff_only a"
    and "console w diff_only_header = None"
    and "console w (ConsolePrint (ns @ ''\<newline>\<newline>'' @ dm)) = None"
  shows "review w a d ns dm inputs =
           ((if length dm = 0
             then [Print ''No file modifications in the PR. But new and deleted files might be present.'']
             else [])
            @ [diff_only_header, ConsolePrint (ns @ ''\<newline>\<newline>'' @ dm)],
            Inl (SystemExit 0))"
  using assms
  by (simp add: review_def bindW_def emit_def console_print_def)

lemma console_prints_returns:
  "(\<forall>ev \<in> set evs. console w ev = None) \<Longrightarrow> console_prints w evs = (evs, Inr ())"
  by (induction evs) (simp_all add: console_print_returns bindW_def)

section \<open>Excluded file types\<close>

lemma readme_unified:
  "check_output readme_world
     [''git'', ''diff'', ''--diff-filter=M'', ''-U10'', ''a1'', ''b2'', ''--'', ''.'', '':(exclude)*md'']
   = Inr []"
  by (simp add: readme_world_def)

text \<open>
  C4, as stated: with the excluded file type \<^verbatim>\<open>md\<close> the resulting diff bundle contains
  no path ending in \<^verbatim>\<open>.md\<close>. The run below is the one of a pull request whose only
  change is a modified \<^verbatim>\<open>README.md\<close>, in diff-only mode: the exclusion is passed to the
  unified-diff call alone, the name-status call lists the file, and the combined text that
  the run prints has the path \<^verbatim>\<open>README.md\<close>.
\<close>

theorem diff_bundle_exclude_counterexample:
  "main readme_world (example_args\<lparr> args_show_diff_only := True \<rparr>) [] =
     ([HttpGet (url_info example_api) (headers example_api),
       HttpGet (url_diff example_api) (headers example_api),
       info_table readme_world example_data,
       Subprocess [''git'', ''diff'', ''--name-status'', ''a1'', ''b2''],
       Subprocess [''git'', ''diff'', ''--diff-filter=M'', ''-U10'', ''a1'', ''b2'', ''--'', ''.'',
                   '':(exclude)*md''],
       Print ''No file modifications in the PR. But new and deleted files might be present.'',
       diff_only_header,
       ConsolePrint (''M'' @ [CHR 0x09] @ ''README.md'' @ ''\<newline>\<newline>'')],
      Inl (SystemExit 0))"
proof -
  let ?a = "example_args\<lparr> args_show_diff_only := True \<rparr>"
  have dm: "check_output readme_world (diff_cmd_line ?a ''a1'' ''b2'') = Inr []"
    by (simp only: example_diff_cmd_line readme_unified)
  have m: "main readme_world ?a [] =
           (fst (make_api readme_world ?a) @ fst (fetch_data readme_world example_api)
            @ [info_table readme_world example_data,
               Subprocess [''git'', ''diff'', ''--name-status'', ''a1'', ''b2''],
               Subprocess (diff_cmd_line ?a ''a1'' ''b2'')]
            @ fst (review readme_world ?a example_data (''M'' @ [CHR 0x09] @ ''README.md'') [] []),
            snd (review readme_world ?a example_data (''M'' @ [CHR 0x09] @ ''README.md'') [] []))"
    by (rule main_review [OF _ _ _ _ _ example_name_status(2) dm])
       (simp_all add: example_make_api example_fetch_data example_data_def example_console)
  have r: "review readme_world ?a example_data (''M'' @ [CHR 0x09] @ ''README.md'') [] [] =
             ([Print ''No file modifications in the PR. But new and deleted files might be present.'',
               diff_only_header,
               ConsolePrint (''M'' @ [CHR 0x09] @ ''README.md'' @ ''\<newline>\<newline>'')],
              Inl (SystemExit 0))"
    using review_diff_only [of ?a readme_world "''M'' @ [CHR 0x09] @ ''README.md''" "[]" example_data "[]"]
    by (simp add: example_console)
  show ?thesis
    unfolding m r by (simp add: example_make_api example_fetch_data example_diff_cmd_line)
qed

text \<open>
  C4, amended. With the excluded file types \<^verbatim>\<open>["md"]\<close> the command of the unified
  diff ends with the marker \<^verbatim>\<open>--\<close>, the path \<^verbatim>\<open>.\<close> and one exclusion pathspec for
  the type: \<^verbatim>\<open>:(exclude)\<close> followed by a glob that begins with \<^verbatim>\<open>*\<close> and ends with
  \<^verbatim>\<open>md\<close>. The command of the name-status call has no exclusion. A run that reaches
  the diff tool calls it with these two commands and goes on with the two outputs; in
  diff-only mode it prints the name-status output, two newlines and the unified diff, so
  the combined text lists every path the name-status call returned.
\<close>

theorem diff_cmd_exclude:
  "args_exclude_file_types a = [''md''] \<Longrightarrow>
   (\<exists>rest cmd.
       cmd = [''git'', ''diff'', ''--diff-filter='' @ diff_filter a,
              ''-U'' @ str_of_int (args_nb_context_lines a), f, t,
              ''--'', ''.'', '':(exclude)*'' @ rest @ ''md'']
     \<and> cmd_strings (diff_cmd a (PyStr f) (PyStr t)) = Inr cmd
     \<and> cmd_strings (name_status_cmd (PyStr f) (PyStr t)) =
         Inr [''git'', ''diff'', ''--name-status'', f, t]
     \<and> (\<forall>w api d inputs ns dm.
           snd (make_api w a) = Inr api \<and> snd (fetch_data w api) = Inr d
           \<and> from_commit d = PyStr f \<and> to_commit d = PyStr t
           \<and> console w (info_table w d) = None
           \<and> check_output w [''git'', ''diff'', ''--name-status'', f, t] = Inr ns
           \<and> check_output w cmd = Inr dm \<longrightarrow>
           main w a inputs =
             (fst (make_api w a) @ fst (fetch_data w api)
              @ [info_table w d,
                 Subprocess [''git'', ''diff'', ''--name-status'', f, t],
                 Subprocess cmd] @ fst (review w a d ns dm inputs),
              snd (review w a d ns dm inputs))
           \<and> (args_show_diff_only a \<and> console w diff_only_header = None
                \<and> console w (ConsolePrint (ns @ ''\<newline>\<newline>'' @ dm)) = None \<longrightarrow>
                ConsolePrint (ns @ ''\<newline>\<newline>'' @ dm) \<in> set (fst (main w a inputs))
                \<and> snd (main w a inputs) = Inl (SystemExit 0))))"
proof -
  assume e: "args_exclude_file_types a = [''md'']"
  let ?cmd = "[''git'', ''diff'', ''--diff-filter='' @ diff_filter a,
              ''-U'' @ str_of_int (args_nb_context_lines a), f, t,
              ''--'', ''.'', '':(exclude)*'' @ [] @ ''md'']"
  have l: "diff_cmd_line a f t = ?cmd"
    by (simp add: diff_cmd_line_def e)
  have c: "cmd_strings (diff_cmd a (PyStr f) (PyStr t)) = Inr ?cmd"
    using diff_cmd_strings [of a f t] by (simp only: l)
  have m: "main w a inputs =
             (fst (make_api w a) @ fst (fetch_data w api)
              @ [info_table w d,
                 Subprocess [''git'', ''diff'', ''--name-status'', f, t],
                 Subprocess ?cmd] @ fst (review w a d ns dm inputs),
              snd (review w a d ns dm inputs))
           \<and> (args_show_diff_only a \<and> console w diff_only_header = None
                \<and> console w (ConsolePrint (ns @ ''\<newline>\<newline>'' @ dm)) = None \<longrightarrow>
                ConsolePrint (ns @ ''\<newline>\<newline>'' @ dm) \<in> set (fst (main w a inputs))
                \<and> snd (main w a inputs) = Inl (SystemExit 0))"
    if h: "snd (make_api w a) = Inr api \<and> snd (fetch_data w api) = Inr d
           \<and> from_commit d = PyStr f \<and> to_commit d = PyStr t
           \<and> console w (info_table w d) = None
           \<and> check_output w [''git'', ''diff'', ''--name-status'', f, t] = Inr ns
           \<and> check_output w ?cmd = Inr dm"
    for w api d inputs ns dm
  proof -
    have dm: "check_output w (diff_cmd_line a f t) = Inr dm"
      using h by (simp only: l)
    have mr: "main w a inputs =
             (fst (make_api w a) @ fst (fetch_data w api)
              @ [info_table w d,
                 Subprocess [''git'', ''diff'', ''--name-status'', f, t],
                 Subprocess ?cmd] @ fst (review w a d ns dm inputs),
              snd (review w a d ns dm inputs))"
      using main_review [of w a api d f t ns dm inputs] h dm by (simp only: l)
    show ?thesis
    proof (intro conjI impI)
      show "main w a inputs =
             (fst (make_api w a) @ fst (fetch_data w api)
              @ [info_table w d,
                 Subprocess [''git'', ''diff'', ''--name-status'', f, t],
                 Subprocess ?cmd] @ fst (review w a d ns dm inputs),
              snd (review w a d ns dm inputs))"
        by (rule mr)
    next
      assume p: "args_show_diff_only a \<and> console w diff_only_header = None
                \<and> console w (ConsolePrint (ns @ ''\<newline>\<newline>'' @ dm)) = None"
      then have r: "review w a d ns dm inputs =
           ((if length dm = 0
             then [Print ''No file modifications in the PR. But new and deleted files might be present.'']
             else [])
            @ [diff_only_header, ConsolePrint (ns @ ''\<newline>\<newline>'' @ dm)],
            Inl (SystemExit 0))"
        using review_diff_only [of a w ns dm d inputs] by blast
      show "ConsolePrint (ns @ ''\<newline>\<newline>'' @ dm) \<in> set (fst (main w a inputs))"
        unfolding mr r by simp
      show "snd (main w a inputs) = Inl (SystemExit 0)"
        unfolding mr r by simp
    qed
  qed
  show ?thesis
    using c name_status_cmd_strings [of f t] m by blast
qed

theorem diff_cmd_exclude_witness:
  "args_exclude_file_types (example_args\<lparr> args_show_diff_only := True \<rparr>) = [''md'']
   \<and> snd (make_api readme_world (example_args\<lparr> args_show_diff_only := True \<rparr>)) = Inr example_api
   \<and> snd (fetch_data readme_world example_api) = Inr example_data
   \<and> from_commit example_data = PyStr ''a1'' \<and> to_commit example_data = PyStr ''b2''
   \<and> console readme_world (info_table readme_world example_data) = None
   \<and> check_output readme_world [''git'', ''diff'', ''--name-status'', ''a1'', ''b2'']
        = Inr (''M'' @ [CHR 0x09] @ ''README.md'')
   \<and> args_show_diff_only (example_args\<lparr> args_show_diff_only := True \<rparr>)
   \<and> console readme_world diff_only_header = None
   \<and> console readme_world (ConsolePrint ((''M'' @ [CHR 0x09] @ ''README.md'') @ ''\<newline>\<newline>'' @ [])) = None
   \<and> ConsolePrint ((''M'' @ [CHR 0x09] @ ''README.md'') @ ''\<newline>\<newline>'' @ [])
        \<in> set (fst (main readme_world (example_args\<lparr> args_show_diff_only := True \<rparr>) []))
   \<and> snd (main readme_world (example_args\<lparr> args_show_diff_only := True \<rparr>) []) = Inl (SystemExit 0)"
proof -
  let ?a = "example_args\<lparr> args_show_diff_only := True \<rparr>"
  let ?ns = "''M'' @ [CHR 0x09] @ ''README.md''"
  have e: "args_exclude_file_types ?a = [''md'']"
    by (simp add: example_args_def)
  have h: "snd (make_api readme_world ?a) = Inr example_api"
          "snd (fetch_data readme_world example_api) = Inr example_data"
          "from_commit example_data = PyStr ''a1''" "to_commit example_data = PyStr ''b2''"
          "console readme_world (info_table readme_world example_data) = None"
          "check_output readme_world [''git'', ''diff'', ''--name-status'', ''a1'', ''b2''] = Inr ?ns"
    by (simp_all add: example_make_api example_fetch_data example_data_def example_console
          example_name_status)
  have p: "args_show_diff_only ?a" "console readme_world diff_only_header = None"
          "console readme_world (ConsolePrint (?ns @ ''\<newline>\<newline>'' @ [])) = None"
    by (simp_all add: example_console)
  obtain rest cmd where
    cmd: "cmd = [''git'', ''diff'', ''--diff-filter='' @ diff_filter ?a,
              ''-U'' @ str_of_int (args_nb_context_lines ?a), ''a1'', ''b2'',
              ''--'', ''.'', '':(exclude)*'' @ rest @ ''md'']"
    and tie: "\<forall>w api d inputs ns dm.
           snd (make_api w ?a) = Inr api \<and> snd (fetch_data w api) = Inr d
           \<and> from_commit d = PyStr ''a1'' \<and> to_commit d = PyStr ''b2''
           \<and> console w (info_table w d) = None
           \<and> check_output w [''git'', ''diff'', ''--name-status'', ''a1'', ''b2''] = Inr ns
           \<and> check_output w cmd = Inr dm \<longrightarrow>
           main w ?a inputs =
             (fst (make_api w ?a) @ fst (fetch_data w api)
              @ [info_table w d,
                 Subprocess [''git'', ''diff'', ''--name-status'', ''a1'', ''b2''],
                 Subprocess cmd] @ fst (review w ?a d ns dm inputs),
              snd (review w ?a d ns dm inputs))
           \<and> (args_show_diff_only ?a \<and> console w diff_only_header = None
                \<and> console w (ConsolePrint (ns @ ''\<newline>\<newline>'' @ dm)) = None \<longrightarrow>
                ConsolePrint (ns @ ''\<newline>\<newline>'' @ dm) \<in> set (fst (main w ?a inputs))
                \<and> snd (main w ?a inputs) = Inl (SystemExit 0))"
    using diff_cmd_exclude [OF e, of "''a1''" "''b2''"] by blast
  have co: "check_output readme_world cmd = Inr []"
    by (simp add: cmd readme_world_def diff_filter_def example_args_def)
  have "ConsolePrint (?ns @ ''\<newline>\<newline>'' @ []) \<in> set (fst (main readme_world ?a []))
        \<and> snd (main readme_world ?a []) = Inl (SystemExit 0)"
    using tie h co p by blast
  then show ?thesis
    using e h p by blast
qed

section \<open>The empty diff\<close>

text \<open>
  C5. When the unified diff is empty, the program prints the note that there are no file
  modifications and goes on as for any diff. In diff-only mode it prints the header and
  the combined text and, when the console returns from both prints, exits with status 0;
  an exception in this mode is one the console raised on a print. Otherwise the events
  continue with those of the first review on the combined text; an exception of the review
  is the exception of the run, and when the review returns a text, the console returns
  from the prints of the result and the run is not interactive, the run returns normally.
  In no case is an \<open>Exception\<close> raised for the empty diff.
\<close>

theorem review_empty_diff:
  "(args_show_diff_only a \<longrightarrow>
      (console w diff_only_header = None \<and> console w (ConsolePrint (ns @ ''\<newline>\<newline>'')) = None \<longrightarrow>
         review w a d ns [] inputs =
           ([Print ''No file modifications in the PR. But new and deleted files might be present.'',
             diff_only_header, ConsolePrint (ns @ ''\<newline>\<newline>'')],
            Inl (SystemExit 0)))
      \<and> (\<exists>evs. fst (review w a d ns [] inputs) =
            Print ''No file modifications in the PR. But new and deleted files might be present.''
            # diff_only_header # evs)
      \<and> (snd (review w a d ns [] inputs) = Inl (SystemExit 0)
           \<or> (\<exists>m. snd (review w a d ns [] inputs) = Inl (ExternalError m))))
   \<and> (\<not> args_show_diff_only a \<longrightarrow>
        (\<exists>evs. fst (review w a d ns [] inputs) =
           Print ''No file modifications in the PR. But new and deleted files might be present.''
           # fst (analyze_pr_with_GPT w (pr_title d) (pr_description d) (ns @ ''\<newline>\<newline>'')
                    (args_llm_type a) (args_show_prompt a) (args_llm_url a)) @ evs)
        \<and> (\<forall>e. snd (analyze_pr_with_GPT w (pr_title d) (pr_description d) (ns @ ''\<newline>\<newline>'')
                    (args_llm_type a) (args_show_prompt a) (args_llm_url a)) = Inl e
               \<longrightarrow> review w a d ns [] inputs =
                     (Print ''No file modifications in the PR. But new and deleted files might be present.''
                      # fst (analyze_pr_with_GPT w (pr_title d) (pr_description d) (ns @ ''\<newline>\<newline>'')
                               (args_llm_type a) (args_show_prompt a) (args_llm_url a)),
                      Inl e))
        \<and> (\<forall>s um msgs.
               snd (analyze_pr_with_GPT w (pr_title d) (pr_description d) (ns @ ''\<newline>\<newline>'')
                    (args_llm_type a) (args_show_prompt a) (args_llm_url a)) = Inr (PyStr s, um, msgs)
               \<and> \<not> args_interactive a
               \<and> (\<forall>ev \<in> set (usage_table um). console w ev = None)
               \<and> console w analysis_header = None
               \<and> console w (ConsoleMarkdown s) = None
               \<longrightarrow> review w a d ns [] inputs =
                     (Print ''No file modifications in the PR. But new and deleted files might be present.''
                      # fst (analyze_pr_with_GPT w (pr_title d) (pr_description d) (ns @ ''\<newline>\<newline>'')
                               (args_llm_type a) (args_show_prompt a) (args_llm_url a))
                      @ usage_table um @ [analysis_header, ConsoleMarkdown s, Print ''\<newline>''],
                      Inr ())))
   \<and> (\<forall>m. snd (review w a d ns [] inputs) \<noteq> Inl (Exception m))"
proof (intro conjI impI allI)
  assume o: "args_show_diff_only a"
  show "review w a d ns [] inputs =
           ([Print ''No file modifications in the PR. But new and deleted files might be present.'',
             diff_only_header, ConsolePrint (ns @ ''\<newline>\<newline>'')],
            Inl (SystemExit 0))"
    if "console w diff_only_header = None \<and> console w (ConsolePrint (ns @ ''\<newline>\<newline>'')) = None"
    using review_diff_only [of a w ns "[]" d inputs] o that by simp
  show "\<exists>evs. fst (review w a d ns [] inputs) =
            Print ''No file modifications in the PR. But new and deleted files might be present.''
            # diff_only_header # evs"
    using o
    by (cases "console w diff_only_header")
       (simp_all add: review_def bindW_def emit_def console_print_def Let_def
          split: option.splits)
  show "snd (review w a d ns [] inputs) = Inl (SystemExit 0)
           \<or> (\<exists>m. snd (review w a d ns [] inputs) = Inl (ExternalError m))"
    using o
    by (simp add: review_def bindW_def emit_def console_print_def Let_def
          split: option.splits)
next
  assume n: "\<not> args_show_diff_only a"
  let ?an = "analyze_pr_with_GPT w (pr_title d) (pr_description d) (ns @ ''\<newline>\<newline>'')
                    (args_llm_type a) (args_show_prompt a) (args_llm_url a)"
  show "\<exists>evs. fst (review w a d ns [] inputs) =
           Print ''No file modifications in the PR. But new and deleted files might be present.''
           # fst ?an @ evs"
    using n fst_bindW_ex [of ?an]
    by (simp add: review_def bindW_emit)
  show "review w a d ns [] inputs =
          (Print ''No file modifications in the PR. But new and deleted files might be present.''
           # fst ?an, Inl e)"
    if "snd ?an = Inl e" for e
    using n that by (simp add: review_def bindW_emit) (simp add: bindW_def)
  show "review w a d ns [] inputs =
          (Print ''No file modifications in the PR. But new and deleted files might be present.''
           # fst ?an @ usage_table um @ [analysis_header, ConsoleMarkdown s, Print ''\<newline>''],
           Inr ())"
    if h: "snd ?an = Inr (PyStr s, um, msgs) \<and> \<not> args_interactive a
           \<and> (\<forall>ev \<in> set (usage_table um). console w ev = None)
           \<and> console w analysis_header = None \<and> console w (ConsoleMarkdown s) = None"
    for s um msgs
  proof -
    have u: "console_prints w (usage_table um) = (usage_table um, Inr ())"
      using h by (simp add: console_prints_returns)
    have k: "console_print w analysis_header = ([analysis_header], Inr ())"
            "console_print w (ConsoleMarkdown s) = ([ConsoleMarkdown s], Inr ())"
      using h by (simp_all add: console_print_returns)
    show ?thesis
      using n h by (simp add: review_def bindW_def emit_def u k)
  qed
next
  fix m show "snd (review w a d ns [] inputs) \<noteq> Inl (Exception m)"
    by (rule review_not_Exception)
qed

theorem review_empty_diff_witness:
  "args_show_diff_only (example_args\<lparr> args_show_diff_only := True \<rparr>)
   \<and> console example_world diff_only_header = None
   \<and> console example_world (ConsolePrint ((''M'' @ [CHR 0x09] @ ''file.py'') @ ''\<newline>\<newline>'')) = None
   \<and> review example_world (example_args\<lparr> args_show_diff_only := True \<rparr>) example_data
        (''M'' @ [CHR 0x09] @ ''file.py'') [] [] =
        ([Print ''No file modifications in the PR. But new and deleted files might be present.'',
          diff_only_header,
          ConsolePrint ((''M'' @ [CHR 0x09] @ ''file.py'') @ ''\<newline>\<newline>'')],
         Inl (SystemExit 0))
   \<and> \<not> args_show_diff_only (example_args\<lparr> args_interactive := False \<rparr>)
   \<and> \<not> args_interactive (example_args\<lparr> args_interactive := False \<rparr>)
   \<and> console example_world analysis_header = None
   \<and> console example_world (ConsoleMarkdown ''LGTM'') = None
   \<and> snd (review example_world (example_args\<lparr> args_interactive := False \<rparr>) example_data
        (''M'' @ [CHR 0x09] @ ''file.py'') [] []) = Inr ()"
proof -
  let ?ns = "''M'' @ [CHR 0x09] @ ''file.py''"
  let ?d = "example_args\<lparr> args_show_diff_only := True \<rparr>"
  let ?n = "example_args\<lparr> args_interactive := False \<rparr>"
  let ?msgs = "seed_messages example_world (pr_title example_data) (pr_description example_data)
                 (?ns @ ''\<newline>\<newline>'')
               @ [\<lparr> role = ''assistant'', content = PyStr ''LGTM'' \<rparr>]"
  note diff_only = review_empty_diff [of ?d example_world ?ns example_data "[]"]
  note continue = review_empty_diff [of ?n example_world ?ns example_data "[]"]
  have o: "args_show_diff_only ?d" "\<not> args_show_diff_only ?n" "\<not> args_interactive ?n"
    by (simp_all add: example_args_def)
  have c: "console example_world diff_only_header = None"
          "console example_world (ConsolePrint (?ns @ ''\<newline>\<newline>'')) = None"
          "\<forall>ev \<in> set (usage_table (Some example_usage)). console example_world ev = None"
          "console example_world analysis_header = None"
          "console example_world (ConsoleMarkdown ''LGTM'') = None"
    by (simp_all add: example_console)
  have an: "snd (analyze_pr_with_GPT example_world (pr_title example_data)
                   (pr_description example_data) (?ns @ ''\<newline>\<newline>'')
                   (args_llm_type ?n) (args_show_prompt ?n) (args_llm_url ?n))
            = Inr (PyStr ''LGTM'', Some example_usage, ?msgs)"
    by (simp add: example_args_def example_analyze)
  have 1: "review example_world ?d example_data ?ns [] [] =
        ([Print ''No file modifications in the PR. But new and deleted files might be present.'',
          diff_only_header, ConsolePrint (?ns @ ''\<newline>\<newline>'')],
         Inl (SystemExit 0))"
    using diff_only o(1) c(1,2) by blast
  have "review example_world ?n example_data ?ns [] [] =
          (Print ''No file modifications in the PR. But new and deleted files might be present.''
           # fst (analyze_pr_with_GPT example_world (pr_title example_data)
                   (pr_description example_data) (?ns @ ''\<newline>\<newline>'')
                   (args_llm_type ?n) (args_show_prompt ?n) (args_llm_url ?n))
           @ usage_table (Some example_usage)
           @ [analysis_header, ConsoleMarkdown ''LGTM'', Print ''\<newline>''],
           Inr ())"
    using continue o(2,3) c(3,4,5) an by blast
  then have 2: "snd (review example_world ?n example_data ?ns [] []) = Inr ()"
    by simp
  show ?thesis
    using 1 2 o c by blast
qed

end
